theory Spec2Isabelle
  imports Main "HOL-Library.Word"
begin

section \<open>Strings and the row delimiter guesser (widget.ts)\<close>

text \<open>
  A JavaScript string is a sequence of UTF-16 code units; \<open>slice\<close>, \<open>indexOf\<close> and
  indexing count code units.
\<close>

type_synonym codeUnit = "16 word"
type_synonym jsString = "codeUnit list"

definition CR :: codeUnit where
  "CR = 13"

definition LF :: codeUnit where
  "LF = 10"

text \<open>\<open>s.indexOf(c)\<close>: the first position of \<open>c\<close>; \<open>None\<close> stands for the result -1.\<close>

fun indexOf :: "'a list \<Rightarrow> 'a \<Rightarrow> nat option" where
  "indexOf [] c = None"
| "indexOf (x # xs) c = (if x = c then Some 0 else map_option Suc (indexOf xs c))"

text \<open>\<open>s[i]\<close>: the code unit at \<open>i\<close>; \<open>None\<close> stands for \<open>undefined\<close> (out of range).\<close>

definition charAt :: "'a list \<Rightarrow> nat \<Rightarrow> 'a option" where
  "charAt s i = (if i < length s then Some (s ! i) else None)"

definition guessRowDelimeter :: "jsString \<Rightarrow> jsString" where
  "guessRowDelimeter data =
     (case indexOf (take 5000 data) CR of
        None \<Rightarrow> [LF]
      | Some i \<Rightarrow> if charAt data (i + 1) = Some LF then [CR, LF] else [CR])"

lemma indexOf_None_iff: "indexOf xs c = None \<longleftrightarrow> c \<notin> set xs"
  by (induction xs) auto

lemma indexOf_Some_iff:
  "indexOf xs c = Some i \<longleftrightarrow> i < length xs \<and> xs ! i = c \<and> (\<forall>j<i. xs ! j \<noteq> c)"
proof (induction xs arbitrary: i)
  case Nil
  then show ?case by simp
next
  case (Cons x xs)
  show ?case
  proof (cases "x = c")
    case True
    then show ?thesis by (cases i) auto
  next
    case False
    show ?thesis
    proof (cases i)
      case 0
      with False show ?thesis by auto
    next
      case (Suc k)
      have "(\<forall>j<Suc k. (x # xs) ! j \<noteq> c) \<longleftrightarrow> (\<forall>j<k. xs ! j \<noteq> c)"
        using False by (auto simp: less_Suc_eq_0_disj)
      with False Suc Cons.IH [of k] show ?thesis by auto
    qed
  qed
qed

section \<open>Errors, regions and change notifications\<close>

text \<open>
  The exceptions the modelled code can raise: \<open>throw 'unreachable'\<close> of \<open>setData\<close>, a
  JavaScript \<open>TypeError\<close> (a property read on \<open>null\<close> or \<open>undefined\<close>), and the
  \<open>RangeError\<close> of the index map's splice.
\<close>

datatype error = Unreachable | TypeError | RangeError

definition thenDo :: "error + 'a \<Rightarrow> ('a \<Rightarrow> error + 'b) \<Rightarrow> error + 'b" where
  "thenDo r f = (case r of Inl e \<Rightarrow> Inl e | Inr x \<Rightarrow> f x)"

datatype region = Body | ColumnHeader | RowHeader | CornerHeader

text \<open>
  \<open>DataModel.ChangedArgs\<close> of the data grid library: rows or columns inserted or removed
  (region, index, span), moved (region, index, span, destination), cells changed
  (region, row, column, rowSpan, columnSpan), model reset.
\<close>

datatype changedArgs =
    RowsInserted region int int
  | RowsRemoved region int int
  | ColumnsInserted region int int
  | ColumnsRemoved region int int
  | RowsMoved region int int int
  | ColumnsMoved region int int int
  | CellsChanged region int int int int
  | ModelReset

text \<open>The \<open>destination\<close> field; \<open>None\<close> stands for \<open>undefined\<close> on a change that has none.\<close>

fun destination :: "changedArgs \<Rightarrow> int option" where
  "destination (RowsMoved _ _ _ d) = Some d"
| "destination (ColumnsMoved _ _ _ d) = Some d"
| "destination _ = None"

section \<open>EditableDSVModel.setData (model.ts)\<close>

text \<open>
  The wrapped \<open>DSVModel\<close> is not part of the sources: its state is the type parameter
  \<open>'d\<close>, and the two members \<open>setData\<close> uses, \<open>_header.length\<close> and \<open>_setField\<close>, are
  parameters. \<open>emitted\<close> collects the arguments of \<open>emitChanged\<close>, oldest first.
\<close>

record 'd editableDSVModel =
  dsvModel :: 'd
  emitted :: "changedArgs list"

definition setData ::
  "('d \<Rightarrow> nat) \<Rightarrow> (int \<Rightarrow> int \<Rightarrow> 'v \<Rightarrow> 'd \<Rightarrow> 'd) \<Rightarrow>
   region \<Rightarrow> int \<Rightarrow> int \<Rightarrow> 'v \<Rightarrow> 'd editableDSVModel \<Rightarrow> error + (bool \<times> 'd editableDSVModel)" where
  "setData headerLength setField region row column v m =
     (case region of
        Body \<Rightarrow>
          Inr (True,
            m\<lparr>dsvModel :=
                 (if headerLength (dsvModel m) = 0
                  then setField row column v (dsvModel m)
                  else setField (row + 1) column v (dsvModel m)),
               emitted := emitted m @ [CellsChanged Body row column 1 1]\<rparr>)
      | _ \<Rightarrow> Inl Unreachable)"

section \<open>Selections, commands and model updates (widget.ts)\<close>

record selection =
  r1 :: int
  r2 :: int
  c1 :: int
  c2 :: int

datatype command =
    Init | InsertRowsAbove | InsertRowsBelow | InsertColumnsRight | InsertColumnsLeft
  | RemoveRows | RemoveColumns | MoveRows | MoveColumns
  | ClearCells | ClearRows | ClearColumns
  | CutCells | CopyCells | PasteCells | Undo | Redo | Save

record gridState =
  currentRows :: int
  currentColumns :: int
  nextChange :: changedArgs
  nextCommand :: "command option"

text \<open>\<open>ListField.Update<number>\<close>: one splice. (\<open>vals\<close> is the field \<open>values\<close>.)\<close>

record splice =
  index :: int
  remove :: int
  vals :: "int list"

text \<open>
  \<open>DSVEditor.ModelChangedArgs\<close>. An absent optional field is \<open>None\<close>. A value update
  maps keys to a new text or to \<open>null\<close> (\<open>None\<close>), in the order of the object's keys.
  \<open>updType\<close> and \<open>updSelection\<close> are the fields \<open>type\<close> and \<open>selection\<close>.
\<close>

record modelChangedArgs =
  rowUpdate :: "splice option"
  columnUpdate :: "splice option"
  valueUpdate :: "(jsString \<times> jsString option) list option"
  gridStateUpdate :: "gridState option"
  updType :: "jsString option"
  updSelection :: "selection option"

definition NULL_NUM_SPLICE :: splice where
  "NULL_NUM_SPLICE = \<lparr>index = 0, remove = 0, vals = []\<rparr>"

text \<open>The string \<open>'init'\<close>.\<close>

definition initType :: jsString where
  "initType = [105, 110, 105, 116]"

section \<open>The transaction log (Litestore)\<close>

text \<open>
  The record of \<open>DSVEditor.DATAMODEL_SCHEMA\<close>: the row and column index maps (lists of
  keys), the value overlay (a map from key strings to texts) and the two registers
  \<open>selection\<close> and \<open>gridState\<close>. The schema's \<open>type\<close> field is never written and is
  left out.
\<close>

record datamodel =
  rowMap :: "int list"
  columnMap :: "int list"
  valueMap :: "jsString \<Rightarrow> jsString option"
  selection :: "selection option"
  gridState :: "gridState option"

text \<open>
  Modelled from the spec: the patch of one edit (litestore.ts is not part of the
  sources). A row or column index splice holds its position, the keys it removed and the
  keys it inserted; an overlay change holds the key, the old value and the new value
  (\<open>None\<close>: absent); for the two registers the patch holds the value before and after.
\<close>

record listPatch =
  position :: nat
  removed :: "int list"
  inserted :: "int list"

text \<open>
  Modelled from the spec: a transaction is the committed patch of one edit: the two index
  splices, the overlay changes in the order they were made, and the change of each
  register (the selection and the grid state with its command tag).
\<close>

record transaction =
  rowPatch :: listPatch
  columnPatch :: listPatch
  valuePatch :: "(jsString \<times> jsString option \<times> jsString option) list"
  selectionPatch :: "selection option \<times> selection option"
  gridStatePatch :: "gridState option \<times> gridState option"

text \<open>
  Modelled from the spec: the Litestore (litestore.ts is not part of the sources): the
  current record, the undo stack and the redo stack (\<open>transactionStore.undoStack\<close>,
  \<open>transactionStore.redoStack\<close>), each with its top first.
\<close>

record litestore =
  current :: datamodel
  undoStack :: "transaction list"
  redoStack :: "transaction list"

text \<open>Modelled from the spec: a new Litestore holds an empty record and no transaction.\<close>

definition newLitestore :: litestore where
  "newLitestore =
     \<lparr>current = \<lparr>rowMap = [], columnMap = [], valueMap = (\<lambda>k. None),
                  selection = None, gridState = None\<rparr>,
      undoStack = [], redoStack = []\<rparr>"

text \<open>Modelled from the spec: \<open>getRecord\<close> reads the current record.\<close>

definition getRecord :: "litestore \<Rightarrow> datamodel" where
  "getRecord ls = current ls"

text \<open>
  Modelled from the spec: \<open>splice(position, removeCount, insertedKeys)\<close> of the index map
  removes \<open>removeCount\<close> keys starting at \<open>position\<close> and inserts \<open>insertedKeys\<close> there; it
  fails with \<open>RangeError\<close> if \<open>position\<close> or \<open>position + removeCount\<close> falls outside
  \<open>[0, length]\<close>. The result is the new list with the patch that records the splice.
\<close>

definition applySplice :: "splice \<Rightarrow> int list \<Rightarrow> error + (int list \<times> listPatch)" where
  "applySplice sp xs =
     (if index sp < 0 \<or> int (length xs) < index sp
         \<or> index sp + remove sp < 0 \<or> int (length xs) < index sp + remove sp
      then Inl RangeError
      else Inr (take (nat (index sp)) xs @ vals sp @ drop (nat (index sp) + nat (remove sp)) xs,
                \<lparr>position = nat (index sp),
                 removed = take (nat (remove sp)) (drop (nat (index sp)) xs),
                 inserted = vals sp\<rparr>))"

text \<open>
  Modelled from the spec: the overlay's \<open>set\<close> returns the previous text or absent, which
  goes into the patch. The entries of a value update are written in their order.
\<close>

fun applyValueUpdate ::
  "(jsString \<times> jsString option) list \<Rightarrow> (jsString \<Rightarrow> jsString option) \<Rightarrow>
   (jsString \<Rightarrow> jsString option) \<times> (jsString \<times> jsString option \<times> jsString option) list" where
  "applyValueUpdate [] m = (m, [])"
| "applyValueUpdate ((k, v) # kvs) m =
     (case applyValueUpdate kvs (m(k := v)) of (m', p) \<Rightarrow> (m', (k, m k, v) # p))"

text \<open>
  Modelled from the spec: the forward patch of an index splice puts the inserted keys in
  the place of the removed ones.
\<close>

definition redoList :: "listPatch \<Rightarrow> int list \<Rightarrow> int list" where
  "redoList p xs = take (position p) xs @ inserted p @ drop (position p + length (removed p)) xs"

text \<open>
  Modelled from the spec: the inverse patch of an index splice puts the removed keys back
  in the place of the inserted ones.
\<close>

definition undoList :: "listPatch \<Rightarrow> int list \<Rightarrow> int list" where
  "undoList p xs = take (position p) xs @ removed p @ drop (position p + length (inserted p)) xs"

text \<open>Modelled from the spec: the forward patch of the overlay writes the new values in order.\<close>

fun redoValues ::
  "(jsString \<times> jsString option \<times> jsString option) list \<Rightarrow> (jsString \<Rightarrow> jsString option) \<Rightarrow>
   (jsString \<Rightarrow> jsString option)" where
  "redoValues [] m = m"
| "redoValues ((k, old, new) # ps) m = redoValues ps (m(k := new))"

text \<open>
  Modelled from the spec: the inverse patch of the overlay restores the old values, the
  last change first.
\<close>

fun undoValues ::
  "(jsString \<times> jsString option \<times> jsString option) list \<Rightarrow> (jsString \<Rightarrow> jsString option) \<Rightarrow>
   (jsString \<Rightarrow> jsString option)" where
  "undoValues [] m = m"
| "undoValues ((k, old, new) # ps) m = (undoValues ps m)(k := old)"

text \<open>
  Modelled from the spec: applying a transaction's forward patch to the record; the
  registers take the values the transaction gave them.
\<close>

definition applyPatch :: "transaction \<Rightarrow> datamodel \<Rightarrow> datamodel" where
  "applyPatch t r =
     \<lparr>rowMap = redoList (rowPatch t) (rowMap r),
      columnMap = redoList (columnPatch t) (columnMap r),
      valueMap = redoValues (valuePatch t) (valueMap r),
      selection = snd (selectionPatch t),
      gridState = snd (gridStatePatch t)\<rparr>"

text \<open>
  Modelled from the spec: applying a transaction's inverse patch; the registers take the
  values they had before the transaction.
\<close>

definition unapplyPatch :: "transaction \<Rightarrow> datamodel \<Rightarrow> datamodel" where
  "unapplyPatch t r =
     \<lparr>rowMap = undoList (rowPatch t) (rowMap r),
      columnMap = undoList (columnPatch t) (columnMap r),
      valueMap = undoValues (valuePatch t) (valueMap r),
      selection = fst (selectionPatch t),
      gridState = fst (gridStatePatch t)\<rparr>"

text \<open>
  Modelled from the spec: \<open>commit\<close> stands for \<open>beginTransaction(); updateRecord(...);
  endTransaction()\<close> with the five fields \<open>updateModel\<close> passes. It applies the update,
  pushes the transaction on the undo stack and clears the redo stack.
\<close>

definition commit ::
  "splice \<Rightarrow> splice \<Rightarrow> (jsString \<times> jsString option) list option \<Rightarrow>
   selection option \<Rightarrow> gridState option \<Rightarrow> litestore \<Rightarrow> error + litestore" where
  "commit rowU columnU valueU sel gs ls =
     (case applySplice rowU (rowMap (current ls)) of
        Inl e \<Rightarrow> Inl e
      | Inr (rows, rp) \<Rightarrow>
          (case applySplice columnU (columnMap (current ls)) of
             Inl e \<Rightarrow> Inl e
           | Inr (cols, cp) \<Rightarrow>
               (case applyValueUpdate (case valueU of None \<Rightarrow> [] | Some kvs \<Rightarrow> kvs)
                       (valueMap (current ls)) of
                  (vm, vp) \<Rightarrow>
                    Inr \<lparr>current = \<lparr>rowMap = rows, columnMap = cols, valueMap = vm,
                                     selection = sel, gridState = gs\<rparr>,
                         undoStack =
                           \<lparr>rowPatch = rp, columnPatch = cp, valuePatch = vp,
                            selectionPatch = (selection (current ls), sel),
                            gridStatePatch = (gridState (current ls), gs)\<rparr> # undoStack ls,
                         redoStack = []\<rparr>)))"

text \<open>
  Modelled from the spec: \<open>undo()\<close> is a no-op if the undo stack has only the sentinel
  initial transaction; otherwise it pops the transaction from the undo stack, pushes it
  on the redo stack and applies its inverse patch.
\<close>

definition undo :: "litestore \<Rightarrow> litestore" where
  "undo ls =
     (case undoStack ls of
        t # t' # ts \<Rightarrow>
          \<lparr>current = unapplyPatch t (current ls), undoStack = t' # ts,
           redoStack = t # redoStack ls\<rparr>
      | _ \<Rightarrow> ls)"

text \<open>
  Modelled from the spec: \<open>redo()\<close> is a no-op if the redo stack is empty; otherwise it
  pops the transaction from the redo stack, pushes it back on the undo stack and applies
  its forward patch.
\<close>

definition redo :: "litestore \<Rightarrow> litestore" where
  "redo ls =
     (case redoStack ls of
        [] \<Rightarrow> ls
      | t # ts \<Rightarrow>
          \<lparr>current = applyPatch t (current ls), undoStack = t # undoStack ls,
           redoStack = ts\<rparr>)"

section \<open>The editor widget (DSVEditor, widget.ts)\<close>

text \<open>
  \<open>EditorModel\<close> (its file is not part of the sources) is taken as a parameter: \<open>'m\<close> is
  its state and the record below holds the members the widget and the key handler call.
  A method that returns a \<open>ModelChangedArgs\<close> (or \<open>null\<close>) yields the update and the
  model's new state; every method may read the Litestore the widget gave the model. An
  argument of type \<open>int option\<close> is a number that is \<open>undefined\<close> or \<open>NaN\<close> (\<open>None\<close>) when
  the grid has no selection.
\<close>

type_synonym 'm edit = "litestore \<Rightarrow> 'm \<Rightarrow> modelChangedArgs option \<times> 'm"

record 'm editorModel =
  totalRows :: "'m \<Rightarrow> int"
  totalColumns :: "'m \<Rightarrow> int"
  addRows :: "region \<Rightarrow> int option \<Rightarrow> int \<Rightarrow> 'm edit"
  addColumns :: "region \<Rightarrow> int option \<Rightarrow> int \<Rightarrow> 'm edit"
  removeRows :: "region \<Rightarrow> int option \<Rightarrow> int \<Rightarrow> 'm edit"
  removeColumns :: "region \<Rightarrow> int option \<Rightarrow> int \<Rightarrow> 'm edit"
  cut :: "region \<Rightarrow> int option \<Rightarrow> int option \<Rightarrow> int option \<Rightarrow> int option \<Rightarrow> 'm edit"
  copy :: "region \<Rightarrow> int option \<Rightarrow> int option \<Rightarrow> int option \<Rightarrow> int option \<Rightarrow> litestore \<Rightarrow> 'm \<Rightarrow> 'm"
  paste :: "region \<Rightarrow> int option \<Rightarrow> int option \<Rightarrow> jsString option \<Rightarrow> 'm edit"
  clearCells ::
    "region \<Rightarrow> (int option \<times> int option \<times> int option \<times> int option) option \<Rightarrow> 'm edit"
  clearRows :: "region \<Rightarrow> int option \<Rightarrow> int option \<Rightarrow> 'm edit"
  clearColumns :: "region \<Rightarrow> int option \<Rightarrow> int option \<Rightarrow> 'm edit"
  emitOppositeChange :: "gridState option \<Rightarrow> litestore \<Rightarrow> 'm \<Rightarrow> 'm"
  emitCurrentChange :: "changedArgs \<Rightarrow> litestore \<Rightarrow> 'm \<Rightarrow> 'm"
  updateString :: "litestore \<Rightarrow> 'm \<Rightarrow> jsString"
  isDataFormatted :: "'m \<Rightarrow> bool"
  resetMetadata :: "litestore \<Rightarrow> 'm \<Rightarrow> 'm"

text \<open>
  The editor after \<open>_updateGrid\<close> has installed its data model: the model's state, the
  Litestore, the selections of the grid's selection model (oldest first), the dirty
  flag and the text of the document context. The DOM (the title's CSS class that the
  \<open>dirty\<close> setter toggles, the renderers, the cell editor) is not modelled.
\<close>

record 'm editor =
  dataModel :: 'm
  store :: litestore
  selections :: "selection list"
  dirty :: bool
  contextText :: jsString

text \<open>
  The selection model of the data grid library: the current selection is the last of
  its selections, or \<open>null\<close>.
\<close>

definition currentSelection :: "'m editor \<Rightarrow> selection option" where
  "currentSelection s = (if selections s = [] then None else Some (last (selections s)))"

text \<open>
  Modelled from the spec: \<open>PaintedGrid.selectCells\<close> (grid.ts is not part of the
  sources) makes the given range the only selection.
\<close>

definition selectCells :: "selection \<Rightarrow> 'm editor \<Rightarrow> 'm editor" where
  "selectCells sel s = s\<lparr>selections := [sel]\<rparr>"

text \<open>
  \<open>selectCells({ r1, r2, c1, c2 })\<close> on the local variables of \<open>_onCommand\<close>, which are
  \<open>undefined\<close> or \<open>NaN\<close> when the grid had no selection; what \<open>selectCells\<close> does with
  such an argument, or with \<open>null\<close>, is outside its parameter's type, and the model
  raises \<open>TypeError\<close> for it.
\<close>

definition selectCellsAt ::
  "int option \<Rightarrow> int option \<Rightarrow> int option \<Rightarrow> int option \<Rightarrow> 'm editor \<Rightarrow> error + 'm editor" where
  "selectCellsAt a1 a2 b1 b2 s =
     (case (a1, a2, b1, b2) of
        (Some x1, Some x2, Some y1, Some y2) \<Rightarrow>
          Inr (selectCells \<lparr>r1 = x1, r2 = x2, c1 = y1, c2 = y2\<rparr> s)
      | _ \<Rightarrow> Inl TypeError)"

definition rowsSelected :: "'m editor \<Rightarrow> int" where
  "rowsSelected s =
     (case currentSelection s of None \<Rightarrow> 0 | Some sel \<Rightarrow> \<bar>r2 sel - r1 sel\<bar> + 1)"

definition columnsSelected :: "'m editor \<Rightarrow> int" where
  "columnsSelected s =
     (case currentSelection s of None \<Rightarrow> 0 | Some sel \<Rightarrow> \<bar>c2 sel - c1 sel\<bar> + 1)"

text \<open>The last statements of \<open>updateModel\<close>: recompute the metadata if the data is formatted.\<close>

definition recomputeMetadata :: "'m editorModel \<Rightarrow> 'm editor \<Rightarrow> 'm editor" where
  "recomputeMetadata dm s =
     (if isDataFormatted dm (dataModel s)
      then s\<lparr>dataModel := resetMetadata dm (store s) (dataModel s)\<rparr>
      else s)"

definition updateModel ::
  "'m editorModel \<Rightarrow> modelChangedArgs option \<Rightarrow> 'm editor \<Rightarrow> error + 'm editor" where
  "updateModel dm update s =
     (case update of
        None \<Rightarrow> Inr (recomputeMetadata dm s)
      | Some u \<Rightarrow>
          (case commit
                  (case rowUpdate u of None \<Rightarrow> NULL_NUM_SPLICE | Some sp \<Rightarrow> sp)
                  (case columnUpdate u of None \<Rightarrow> NULL_NUM_SPLICE | Some sp \<Rightarrow> sp)
                  (valueUpdate u)
                  (case updSelection u of None \<Rightarrow> currentSelection s | Some sel \<Rightarrow> Some sel)
                  (gridStateUpdate u)
                  (store s) of
             Inl e \<Rightarrow> Inl e
           | Inr ls \<Rightarrow>
               if updType u = Some initType then Inr (s\<lparr>store := ls\<rparr>)
               else Inr (recomputeMetadata dm (s\<lparr>store := ls, dirty := True\<rparr>))))"

text \<open>
  \<open>save\<close> with \<open>exiting = false\<close>, as \<open>_onCommand\<close> calls it: no \<open>await\<close> is reached, so the
  body runs to its end at once. Writing the file (\<open>context.save()\<close>) is outside the model.
\<close>

definition save :: "'m editorModel \<Rightarrow> 'm editor \<Rightarrow> 'm editor" where
  "save dm s = s\<lparr>contextText := updateString dm (store s) (dataModel s), dirty := False\<rparr>"

text \<open>
  The selection \<open>redo\<close> restores: the special cases by command, applied to the recorded
  selection; \<open>rowSpan\<close> and \<open>colSpan\<close> are those of \<open>_onCommand\<close>. The cast of the change
  to a move is unchecked: on a change without a destination the selection would hold
  \<open>undefined\<close>, for which the result is \<open>None\<close>.
\<close>

definition redoSelection ::
  "command option \<Rightarrow> changedArgs \<Rightarrow> int \<Rightarrow> int \<Rightarrow> selection \<Rightarrow> selection option" where
  "redoSelection command gridChange rowSpan colSpan sel =
     (if command = Some InsertRowsBelow
      then Some (sel\<lparr>r1 := r1 sel + rowSpan, r2 := r2 sel + rowSpan\<rparr>)
      else if command = Some InsertColumnsRight
      then Some (sel\<lparr>c1 := c1 sel + colSpan, c2 := c2 sel + colSpan\<rparr>)
      else if command = Some MoveRows
      then map_option (\<lambda>d. sel\<lparr>r1 := d, r2 := d\<rparr>) (destination gridChange)
      else if command = Some MoveColumns
      then map_option (\<lambda>d. sel\<lparr>c1 := d, c2 := d\<rparr>) (destination gridChange)
      else Some sel)"

text \<open>
  The statements of \<open>_onCommand\<close> after its \<open>switch\<close>: \<open>a1, a2, b1, b2\<close> are the local
  variables \<open>r1, r2, c1, c2\<close>. Writing \<open>nextCommand\<close> into an update without a
  \<open>gridStateUpdate\<close> is a \<open>TypeError\<close>.
\<close>

definition afterSwitch ::
  "'m editorModel \<Rightarrow> command \<Rightarrow> selection option \<Rightarrow>
   int option \<Rightarrow> int option \<Rightarrow> int option \<Rightarrow> int option \<Rightarrow>
   modelChangedArgs option \<Rightarrow> 'm editor \<Rightarrow> error + 'm editor" where
  "afterSwitch dm command sel a1 a2 b1 b2 update s =
     (case update of
        None \<Rightarrow> updateModel dm None s
      | Some u \<Rightarrow>
          (case gridStateUpdate u of
             None \<Rightarrow> Inl TypeError
           | Some gs \<Rightarrow>
               thenDo (selectCellsAt a1 a2 b1 b2 s)
                 (updateModel dm
                    (Some (u\<lparr>updSelection := sel,
                             gridStateUpdate := Some (gs\<lparr>nextCommand := Some command\<rparr>)\<rparr>)))))"

text \<open>
  How the \<open>switch\<close> of \<open>_onCommand\<close> ends: by \<open>return\<close>, or by \<open>break\<close> (or no case)
  with the local variables \<open>update, r1, r2, c1, c2\<close> and the editor as they then are.
\<close>

datatype 'm switched =
    Returned "'m editor"
  | Broke "modelChangedArgs option" "int option" "int option" "int option" "int option" "'m editor"

text \<open>A case that assigns \<open>update\<close> from a method of the model.\<close>

definition editCase ::
  "int option \<Rightarrow> int option \<Rightarrow> int option \<Rightarrow> int option \<Rightarrow> 'm edit \<Rightarrow> 'm editor \<Rightarrow>
   error + 'm switched" where
  "editCase a1 a2 b1 b2 edit s =
     (case edit (store s) (dataModel s) of
        (update, m) \<Rightarrow> Inr (Broke update a1 a2 b1 b2 (s\<lparr>dataModel := m\<rparr>)))"

definition plusNum :: "int option \<Rightarrow> int \<Rightarrow> int option" where
  "plusNum a n = map_option (\<lambda>x. x + n) a"

definition absDiffPlus1 :: "int option \<Rightarrow> int option \<Rightarrow> int option" where
  "absDiffPlus1 a b =
     (case (a, b) of (Some x, Some y) \<Rightarrow> Some (\<bar>x - y\<bar> + 1) | _ \<Rightarrow> None)"

text \<open>
  The \<open>switch\<close> of \<open>_onCommand\<close>, with the statements before it. \<open>a1, a2, b1, b2\<close> are
  the local variables \<open>r1, r2, c1, c2\<close>; \<open>rowSpan\<close> and \<open>colSpan\<close> are read from the
  selection current when the command arrives. Copying to the operating system's
  clipboard (\<open>copyToClipboard\<close>) and cancelling the cell editor (\<open>_cancelEditing\<close>) are
  outside the model.
\<close>

definition commandSwitch ::
  "'m editorModel \<Rightarrow> command \<Rightarrow> 'm editor \<Rightarrow> error + 'm switched" where
  "commandSwitch dm command s =
     (let sel = currentSelection s;
          rowSpan = rowsSelected s;
          colSpan = columnsSelected s;
          a1 = map_option (\<lambda>x. min (r1 x) (r2 x)) sel;
          a2 = map_option (\<lambda>x. max (r1 x) (r2 x)) sel;
          b1 = map_option (\<lambda>x. min (c1 x) (c2 x)) sel;
          b2 = map_option (\<lambda>x. max (c1 x) (c2 x)) sel
      in case command of
           InsertRowsAbove \<Rightarrow> editCase a1 a2 b1 b2 (addRows dm Body a1 rowSpan) s
         | InsertRowsBelow \<Rightarrow>
             editCase (plusNum a1 rowSpan) (plusNum a2 rowSpan) b1 b2
               (addRows dm Body (plusNum a2 1) rowSpan) s
         | InsertColumnsLeft \<Rightarrow> editCase a1 a2 b1 b2 (addColumns dm Body b1 colSpan) s
         | InsertColumnsRight \<Rightarrow>
             editCase a1 a2 (plusNum b1 colSpan) (plusNum b2 colSpan)
               (addColumns dm Body (plusNum b2 1) colSpan) s
         | RemoveRows \<Rightarrow> editCase a1 a2 b1 b2 (removeRows dm Body a1 rowSpan) s
         | RemoveColumns \<Rightarrow> editCase a1 a2 b1 b2 (removeColumns dm Body b1 colSpan) s
         | CutCells \<Rightarrow> editCase a1 a2 b1 b2 (cut dm Body a1 b1 a2 b2) s
         | CopyCells \<Rightarrow>
             Inr (Broke None a1 a2 b1 b2
                    (s\<lparr>dataModel := copy dm Body a1 b1 a2 b2 (store s) (dataModel s)\<rparr>))
         | PasteCells \<Rightarrow> editCase a1 a2 b1 b2 (paste dm Body a1 b1 None) s
         | ClearCells \<Rightarrow> editCase a1 a2 b1 b2 (clearCells dm Body (Some (a1, a2, b1, b2))) s
         | ClearRows \<Rightarrow> editCase a1 a2 b1 b2 (clearRows dm Body a1 (absDiffPlus1 a1 a2)) s
         | ClearColumns \<Rightarrow> editCase a1 a2 b1 b2 (clearColumns dm Body b1 (absDiffPlus1 b1 b2)) s
         | Undo \<Rightarrow>
             if length (undoStack (store s)) = 1 then Inr (Returned s)
             else
               (let gs = gridState (getRecord (store s));
                    recorded = selection (getRecord (store s));
                    ls = undo (store s);
                    s' = s\<lparr>store := ls, dataModel := emitOppositeChange dm gs ls (dataModel s)\<rparr>
                in case recorded of
                     None \<Rightarrow> Inl TypeError
                   | Some x \<Rightarrow> Inr (Broke None a1 a2 b1 b2 (selectCells x s')))
         | Redo \<Rightarrow>
             if length (redoStack (store s)) = 0 then Inr (Returned s)
             else
               (let ls = redo (store s) in
                case gridState (getRecord ls) of
                  None \<Rightarrow> Inl TypeError
                | Some gs \<Rightarrow>
                    (let s' = s\<lparr>store := ls,
                               dataModel := emitCurrentChange dm (nextChange gs) ls (dataModel s)\<rparr>
                     in case selection (getRecord ls) of
                          None \<Rightarrow> Inr (Broke None a1 a2 b1 b2 s')
                        | Some x \<Rightarrow>
                            (case redoSelection (nextCommand gs) (nextChange gs) rowSpan colSpan x of
                               None \<Rightarrow> Inl TypeError
                             | Some x' \<Rightarrow> Inr (Broke None a1 a2 b1 b2 (selectCells x' s')))))
         | Save \<Rightarrow> Inr (Broke None a1 a2 b1 b2 (save dm s))
         | _ \<Rightarrow> Inr (Broke None a1 a2 b1 b2 s))"

text \<open>
  \<open>_onCommand\<close>: \<open>update.selection\<close> is set to the selection read at the start of the
  call.
\<close>

definition onCommand :: "'m editorModel \<Rightarrow> command \<Rightarrow> 'm editor \<Rightarrow> error + 'm editor" where
  "onCommand dm command s =
     thenDo (commandSwitch dm command s)
       (\<lambda>r. case r of
              Returned s' \<Rightarrow> Inr s'
            | Broke update a1 a2 b1 b2 s' \<Rightarrow>
                afterSwitch dm command (currentSelection s) a1 a2 b1 b2 update s')"

text \<open>
  \<open>_updateGrid\<close> on an editor without a data model: \<open>m\<close> is the new \<open>EditorModel\<close> and
  \<open>data\<close> the text of the document. \<open>toArray(range(0, n))\<close> is the list \<open>0, ..., n - 1\<close>.
\<close>

definition updateGrid :: "'m editorModel \<Rightarrow> 'm \<Rightarrow> jsString \<Rightarrow> error + 'm editor" where
  "updateGrid dm m data =
     updateModel dm
       (Some \<lparr>rowUpdate = Some \<lparr>index = 0, remove = 0, vals = [0..totalRows dm m - 1]\<rparr>,
              columnUpdate = Some \<lparr>index = 0, remove = 0, vals = [0..totalColumns dm m - 1]\<rparr>,
              valueUpdate = None, gridStateUpdate = None,
              updType = Some initType, updSelection = None\<rparr>)
       \<lparr>dataModel = m, store = newLitestore, selections = [], dirty = False,
        contextText = data\<rparr>"

text \<open>\<open>getSelectedRange\<close>: the first selection, or \<open>undefined\<close>.\<close>

definition getSelectedRange :: "'m editor \<Rightarrow> selection option" where
  "getSelectedRange s = (case selections s of [] \<Rightarrow> None | x # _ \<Rightarrow> Some x)"

text \<open>\<open>_handlePaste\<close>: destructuring \<open>undefined\<close> (no selection) is a \<open>TypeError\<close>.\<close>

definition handlePaste :: "'m editorModel \<Rightarrow> jsString \<Rightarrow> 'm editor \<Rightarrow> error + 'm editor" where
  "handlePaste dm copiedText s =
     (case getSelectedRange s of
        None \<Rightarrow> Inl TypeError
      | Some x \<Rightarrow>
          (let row = min (r1 x) (r2 x);
               column = min (c1 x) (c2 x)
           in case paste dm Body (Some row) (Some column) (Some copiedText) (store s) (dataModel s) of
                (update, m) \<Rightarrow> updateModel dm update (s\<lparr>dataModel := m\<rparr>)))"

text \<open>
  \<open>RichKeyHandler.onDelete\<close> (keyhandler.ts): the model clears the current selection and
  the update goes to the editor through \<open>onChangedSignal\<close>, that is to \<open>updateModel\<close>.
\<close>

definition onDelete :: "'m editorModel \<Rightarrow> 'm editor \<Rightarrow> error + 'm editor" where
  "onDelete dm s =
     (case clearCells dm Body
             (map_option (\<lambda>x. (Some (r1 x), Some (r2 x), Some (c1 x), Some (c2 x)))
                (currentSelection s))
             (store s) (dataModel s) of
        (update, m) \<Rightarrow> updateModel dm update (s\<lparr>dataModel := m\<rparr>))"

section \<open>An edit engine for the editor (EditorModel)\<close>

text \<open>
  Modelled from the spec: the state of the Edit Engine (\<open>EditorModel\<close>, whose file is not
  part of the sources): the original parse, which is never changed; the counter new keys
  are minted from; the clipboard buffer; the configured delimiter; the change events
  emitted so far, oldest first; and whether the data is shown formatted.
\<close>

record engine =
  original :: "jsString list list"
  nextKey :: int
  clipboard :: "jsString list list"
  delimiter :: jsString
  changes :: "changedArgs list"
  formatted :: bool

text \<open>Modelled from the spec: a decimal numeral, for the key strings of the overlay.\<close>

function natToString :: "nat \<Rightarrow> jsString" where
  "natToString n =
     (if n < 10 then [of_nat (48 + n)] else natToString (n div 10) @ [of_nat (48 + n mod 10)])"
  by pat_completeness auto
termination
  by (relation "measure (\<lambda>n. n)") auto

text \<open>
  Modelled from the spec: the overlay is keyed by the row key and the column key,
  assembled as a delimited string (here with a comma).
\<close>

definition cellKey :: "int \<Rightarrow> int \<Rightarrow> jsString" where
  "cellKey rowKey columnKey = natToString (nat rowKey) @ [44] @ natToString (nat columnKey)"

text \<open>Modelled from the spec: out-of-bounds positions are clamped to \<open>[0, length]\<close>.\<close>

definition clampPosition :: "int \<Rightarrow> nat \<Rightarrow> int" where
  "clampPosition p n = max 0 (min p (int n))"

text \<open>Modelled from the spec: an update with no field set.\<close>

definition noUpdate :: modelChangedArgs where
  "noUpdate =
     \<lparr>rowUpdate = None, columnUpdate = None, valueUpdate = None, gridStateUpdate = None,
      updType = None, updSelection = None\<rparr>"

text \<open>Modelled from the spec: every edit emits one change event that describes its region.\<close>

definition emitChange :: "changedArgs \<Rightarrow> engine \<Rightarrow> engine" where
  "emitChange change e = e\<lparr>changes := changes e @ [change]\<rparr>"

text \<open>
  Modelled from the spec: \<open>insertRows(position, count)\<close> is an index map splice that
  inserts \<open>count\<close> fresh keys at \<open>position\<close>; the overlay is untouched; \<open>count \<le> 0\<close> is a
  no-op; the position is clamped to \<open>[0, length]\<close>. New keys come from a strictly
  increasing counter. An undefined position is a no-op.
\<close>

definition engineAddRows :: "region \<Rightarrow> int option \<Rightarrow> int \<Rightarrow> engine edit" where
  "engineAddRows region pos count ls e =
     (case pos of
        None \<Rightarrow> (None, e)
      | Some p \<Rightarrow>
          if count \<le> 0 then (None, e)
          else
            (let rows = rowMap (current ls);
                 at = clampPosition p (length rows);
                 change = RowsInserted Body at count
             in (Some (noUpdate
                   \<lparr>rowUpdate := Some \<lparr>index = at, remove = 0,
                                        vals = [nextKey e..nextKey e + count - 1]\<rparr>,
                    gridStateUpdate :=
                      Some \<lparr>currentRows = int (length rows) + count,
                            currentColumns = int (length (columnMap (current ls))),
                            nextChange = change, nextCommand = None\<rparr>\<rparr>),
                 emitChange change (e\<lparr>nextKey := nextKey e + count\<rparr>))))"

text \<open>Modelled from the spec: \<open>insertColumns(position, count)\<close>, as \<open>insertRows\<close> on the column map.\<close>

definition engineAddColumns :: "region \<Rightarrow> int option \<Rightarrow> int \<Rightarrow> engine edit" where
  "engineAddColumns region pos count ls e =
     (case pos of
        None \<Rightarrow> (None, e)
      | Some p \<Rightarrow>
          if count \<le> 0 then (None, e)
          else
            (let cols = columnMap (current ls);
                 at = clampPosition p (length cols);
                 change = ColumnsInserted Body at count
             in (Some (noUpdate
                   \<lparr>columnUpdate := Some \<lparr>index = at, remove = 0,
                                           vals = [nextKey e..nextKey e + count - 1]\<rparr>,
                    gridStateUpdate :=
                      Some \<lparr>currentRows = int (length (rowMap (current ls))),
                            currentColumns = int (length cols) + count,
                            nextChange = change, nextCommand = None\<rparr>\<rparr>),
                 emitChange change (e\<lparr>nextKey := nextKey e + count\<rparr>))))"

text \<open>
  Modelled from the spec: \<open>removeRows(position, count)\<close> is an index map splice that
  removes keys; removing beyond the bounds truncates to the available length; the
  overlay's entries for the removed keys stay where they are.
\<close>

definition engineRemoveRows :: "region \<Rightarrow> int option \<Rightarrow> int \<Rightarrow> engine edit" where
  "engineRemoveRows region pos count ls e =
     (case pos of
        None \<Rightarrow> (None, e)
      | Some p \<Rightarrow>
          (let rows = rowMap (current ls);
               at = clampPosition p (length rows);
               k = max 0 (min count (int (length rows) - at));
               change = RowsRemoved Body at k
           in (Some (noUpdate
                 \<lparr>rowUpdate := Some \<lparr>index = at, remove = k, vals = []\<rparr>,
                  gridStateUpdate :=
                    Some \<lparr>currentRows = int (length rows) - k,
                          currentColumns = int (length (columnMap (current ls))),
                          nextChange = change, nextCommand = None\<rparr>\<rparr>),
               emitChange change e)))"

text \<open>Modelled from the spec: \<open>removeColumns(position, count)\<close>, as \<open>removeRows\<close> on the column map.\<close>

definition engineRemoveColumns :: "region \<Rightarrow> int option \<Rightarrow> int \<Rightarrow> engine edit" where
  "engineRemoveColumns region pos count ls e =
     (case pos of
        None \<Rightarrow> (None, e)
      | Some p \<Rightarrow>
          (let cols = columnMap (current ls);
               at = clampPosition p (length cols);
               k = max 0 (min count (int (length cols) - at));
               change = ColumnsRemoved Body at k
           in (Some (noUpdate
                 \<lparr>columnUpdate := Some \<lparr>index = at, remove = k, vals = []\<rparr>,
                  gridStateUpdate :=
                    Some \<lparr>currentRows = int (length (rowMap (current ls))),
                          currentColumns = int (length cols) - k,
                          nextChange = change, nextCommand = None\<rparr>\<rparr>),
               emitChange change e)))"

text \<open>
  Modelled from the spec: the positions of a range (from \<open>lo\<close> to \<open>hi\<close>) that lie inside
  a grid of \<open>n\<close> rows or columns.
\<close>

definition insideRange :: "int \<Rightarrow> int \<Rightarrow> nat \<Rightarrow> nat list" where
  "insideRange lo hi n = map nat [max 0 lo..min hi (int n - 1)]"

text \<open>Modelled from the spec: the overlay keys of the cells of a range, row by row.\<close>

definition rangeKeys :: "int \<Rightarrow> int \<Rightarrow> int \<Rightarrow> int \<Rightarrow> litestore \<Rightarrow> jsString list" where
  "rangeKeys ra rb ca cb ls =
     concat (map (\<lambda>i. map (\<lambda>j. cellKey (rowMap (current ls) ! i) (columnMap (current ls) ! j))
                         (insideRange ca cb (length (columnMap (current ls)))))
                 (insideRange ra rb (length (rowMap (current ls)))))"

text \<open>
  Modelled from the spec: \<open>clear(range)\<close> sets all cells of the range to the empty string;
  an empty selection is a no-op.
\<close>

definition engineClear :: "int \<Rightarrow> int \<Rightarrow> int \<Rightarrow> int \<Rightarrow> engine edit" where
  "engineClear ra rb ca cb ls e =
     (if rangeKeys ra rb ca cb ls = [] then (None, e)
      else
        (let change = CellsChanged Body ra ca (rb - ra + 1) (cb - ca + 1)
         in (Some (noUpdate
               \<lparr>valueUpdate := Some (map (\<lambda>k. (k, Some [])) (rangeKeys ra rb ca cb ls)),
                gridStateUpdate :=
                  Some \<lparr>currentRows = int (length (rowMap (current ls))),
                        currentColumns = int (length (columnMap (current ls))),
                        nextChange = change, nextCommand = None\<rparr>\<rparr>),
             emitChange change e)))"

text \<open>
  Modelled from the spec: \<open>clearCells\<close> clears the given range; without a selection, or
  with an undefined bound, it is a no-op.
\<close>

definition engineClearCells ::
  "region \<Rightarrow> (int option \<times> int option \<times> int option \<times> int option) option \<Rightarrow> engine edit" where
  "engineClearCells region box ls e =
     (case box of
        Some (Some ra, Some rb, Some ca, Some cb) \<Rightarrow> engineClear ra rb ca cb ls e
      | _ \<Rightarrow> (None, e))"

text \<open>Modelled from the spec: \<open>clearRows\<close> clears \<open>span\<close> whole rows from \<open>pos\<close>.\<close>

definition engineClearRows :: "region \<Rightarrow> int option \<Rightarrow> int option \<Rightarrow> engine edit" where
  "engineClearRows region pos span ls e =
     (case (pos, span) of
        (Some p, Some n) \<Rightarrow>
          engineClear p (p + n - 1) 0 (int (length (columnMap (current ls))) - 1) ls e
      | _ \<Rightarrow> (None, e))"

text \<open>Modelled from the spec: \<open>clearColumns\<close> clears \<open>span\<close> whole columns from \<open>pos\<close>.\<close>

definition engineClearColumns :: "region \<Rightarrow> int option \<Rightarrow> int option \<Rightarrow> engine edit" where
  "engineClearColumns region pos span ls e =
     (case (pos, span) of
        (Some p, Some n) \<Rightarrow>
          engineClear 0 (int (length (rowMap (current ls))) - 1) p (p + n - 1) ls e
      | _ \<Rightarrow> (None, e))"

text \<open>
  Modelled from the spec: a lookup falls back to the original parse when the overlay has
  no entry; the cells of a new row or column read as the empty string.
\<close>

definition originalText :: "engine \<Rightarrow> int \<Rightarrow> int \<Rightarrow> jsString" where
  "originalText e rowKey columnKey =
     (if 0 \<le> rowKey \<and> nat rowKey < length (original e)
         \<and> 0 \<le> columnKey \<and> nat columnKey < length (original e ! nat rowKey)
      then original e ! nat rowKey ! nat columnKey
      else [])"

text \<open>
  Modelled from the spec: the text of the cell at a position inside the grid: the overlay
  value of its key pair if present, the original text otherwise.
\<close>

definition cellText :: "litestore \<Rightarrow> engine \<Rightarrow> nat \<Rightarrow> nat \<Rightarrow> jsString" where
  "cellText ls e i j =
     (let rowKey = rowMap (current ls) ! i;
          columnKey = columnMap (current ls) ! j
      in case valueMap (current ls) (cellKey rowKey columnKey) of
           Some t \<Rightarrow> t
         | None \<Rightarrow> originalText e rowKey columnKey)"

text \<open>Modelled from the spec: \<open>copy(range)\<close> reads the values into the clipboard buffer.\<close>

definition engineCopy ::
  "region \<Rightarrow> int option \<Rightarrow> int option \<Rightarrow> int option \<Rightarrow> int option \<Rightarrow> litestore \<Rightarrow> engine \<Rightarrow> engine" where
  "engineCopy region ra ca rb cb ls e =
     (case (ra, ca, rb, cb) of
        (Some a1, Some b1, Some a2, Some b2) \<Rightarrow>
          e\<lparr>clipboard :=
               map (\<lambda>i. map (cellText ls e i) (insideRange b1 b2 (length (columnMap (current ls)))))
                   (insideRange a1 a2 (length (rowMap (current ls))))\<rparr>
      | _ \<Rightarrow> e)"

text \<open>Modelled from the spec: \<open>cut(range)\<close> is \<open>clear(range)\<close> after the values are copied.\<close>

definition engineCut ::
  "region \<Rightarrow> int option \<Rightarrow> int option \<Rightarrow> int option \<Rightarrow> int option \<Rightarrow> engine edit" where
  "engineCut region ra ca rb cb ls e =
     engineClearCells region (Some (ra, rb, ca, cb)) ls (engineCopy region ra ca rb cb ls e)"

text \<open>
  Modelled from the spec: splitting a text at every occurrence of a separator (for the
  rows at line breaks, for the columns at the configured delimiter). \<open>cur\<close> holds the
  current piece, reversed. An empty separator never matches.
\<close>

function splitOn :: "'a list \<Rightarrow> 'a list \<Rightarrow> 'a list \<Rightarrow> 'a list list" where
  "splitOn d cur [] = [rev cur]"
| "splitOn d cur (x # xs) =
     (if d \<noteq> [] \<and> take (length d) (x # xs) = d
      then rev cur # splitOn d [] (drop (length d) (x # xs))
      else splitOn d (x # cur) xs)"
  by pat_completeness auto
termination
  by (relation "measure (\<lambda>(d, cur, xs). length xs)") auto

text \<open>
  Modelled from the spec: the clipboard text is parsed into a rectangular block, rows
  split on line breaks (line feeds) and columns on the configured delimiter. A row that
  does not have the width of the first row is kept as a single-column value.
\<close>

definition parseBlock :: "jsString \<Rightarrow> jsString \<Rightarrow> jsString list list" where
  "parseBlock delim text =
     (let rows = splitOn [LF] [] text;
          width = (case rows of [] \<Rightarrow> 0 | row # _ \<Rightarrow> length (splitOn delim [] row))
      in map (\<lambda>row. if length (splitOn delim [] row) = width then splitOn delim [] row else [row])
             rows)"

text \<open>Modelled from the spec: the width of a block is that of its widest row.\<close>

definition blockWidth :: "'a list list \<Rightarrow> nat" where
  "blockWidth block = foldr (\<lambda>row w. max (length row) w) block 0"

text \<open>
  Modelled from the spec: the overlay writes of a paste: each cell of the block, row by
  row, at its offset from the origin, addressed through the (grown) index maps.
\<close>

definition pasteWrites ::
  "int list \<Rightarrow> int list \<Rightarrow> nat \<Rightarrow> nat \<Rightarrow> jsString list list \<Rightarrow> (jsString \<times> jsString option) list" where
  "pasteWrites rows cols r c block =
     concat (map (\<lambda>(i, line).
                    map (\<lambda>(j, t). (cellKey (rows ! (r + i)) (cols ! (c + j)), Some t))
                        (enumerate 0 line))
                 (enumerate 0 block))"

text \<open>
  Modelled from the spec: \<open>paste(origin, clipboardText)\<close> parses the text into a block and
  overlay-sets each cell starting at the origin; a block that exceeds the current bounds
  grows the grid first, by inserting fresh row and column keys at the end, so that one
  compound update (index splices and overlay changes) results. Without a text the
  block is the clipboard buffer. An undefined or negative origin and an empty block are
  no-ops.
\<close>

definition enginePaste :: "region \<Rightarrow> int option \<Rightarrow> int option \<Rightarrow> jsString option \<Rightarrow> engine edit" where
  "enginePaste region row column text ls e =
     (case (row, column) of
        (Some r, Some c) \<Rightarrow>
          (let block = (case text of Some t \<Rightarrow> parseBlock (delimiter e) t | None \<Rightarrow> clipboard e);
               rows = rowMap (current ls);
               cols = columnMap (current ls);
               moreRows = max 0 (r + int (length block) - int (length rows));
               moreColumns = max 0 (c + int (blockWidth block) - int (length cols));
               rowKeys = [nextKey e..nextKey e + moreRows - 1];
               columnKeys = [nextKey e + moreRows..nextKey e + moreRows + moreColumns - 1];
               change = CellsChanged Body r c (int (length block)) (int (blockWidth block))
           in if block = [] \<or> r < 0 \<or> c < 0 then (None, e)
              else
                (Some (noUpdate
                   \<lparr>rowUpdate :=
                      (if 0 < moreRows
                       then Some \<lparr>index = int (length rows), remove = 0, vals = rowKeys\<rparr>
                       else None),
                    columnUpdate :=
                      (if 0 < moreColumns
                       then Some \<lparr>index = int (length cols), remove = 0, vals = columnKeys\<rparr>
                       else None),
                    valueUpdate :=
                      Some (pasteWrites (rows @ rowKeys) (cols @ columnKeys) (nat r) (nat c) block),
                    gridStateUpdate :=
                      Some \<lparr>currentRows = int (length rows) + moreRows,
                            currentColumns = int (length cols) + moreColumns,
                            nextChange = change, nextCommand = None\<rparr>\<rparr>),
                 emitChange change (e\<lparr>nextKey := nextKey e + moreRows + moreColumns\<rparr>)))
      | _ \<Rightarrow> (None, e))"

text \<open>
  Modelled from the spec: one change event per undone and per redone transaction: the
  opposite of the transaction's change on undo, the change itself on redo.
\<close>

fun oppositeChange :: "changedArgs \<Rightarrow> changedArgs" where
  "oppositeChange (RowsInserted g i n) = RowsRemoved g i n"
| "oppositeChange (RowsRemoved g i n) = RowsInserted g i n"
| "oppositeChange (ColumnsInserted g i n) = ColumnsRemoved g i n"
| "oppositeChange (ColumnsRemoved g i n) = ColumnsInserted g i n"
| "oppositeChange (RowsMoved g i n d) = RowsMoved g d n i"
| "oppositeChange (ColumnsMoved g i n d) = ColumnsMoved g d n i"
| "oppositeChange change = change"

text \<open>
  Modelled from the spec: \<open>emitOppositeChange\<close> emits the opposite of the recorded change;
  without a grid state there is nothing to emit.
\<close>

definition engineEmitOppositeChange :: "gridState option \<Rightarrow> litestore \<Rightarrow> engine \<Rightarrow> engine" where
  "engineEmitOppositeChange gs ls e =
     (case gs of None \<Rightarrow> e | Some g \<Rightarrow> emitChange (oppositeChange (nextChange g)) e)"

text \<open>Modelled from the spec: \<open>emitCurrentChange\<close> emits the given change.\<close>

definition engineEmitCurrentChange :: "changedArgs \<Rightarrow> litestore \<Rightarrow> engine \<Rightarrow> engine" where
  "engineEmitCurrentChange change ls e = emitChange change e"

text \<open>Modelled from the spec: joining texts with a separator between them.\<close>

definition joinWith :: "'a list \<Rightarrow> 'a list list \<Rightarrow> 'a list" where
  "joinWith sep xs = (case xs of [] \<Rightarrow> [] | x # rest \<Rightarrow> x @ concat (map (\<lambda>y. sep @ y) rest))"

text \<open>
  Modelled from the spec: the serializer (\<open>updateString\<close>) honours the row and column
  order of the index maps, substitutes overlay values where present and falls back to the original parse.
\<close>

definition engineUpdateString :: "litestore \<Rightarrow> engine \<Rightarrow> jsString" where
  "engineUpdateString ls e =
     joinWith [LF]
       (map (\<lambda>i. joinWith (delimiter e)
                    (map (cellText ls e i) [0..<length (columnMap (current ls))]))
            [0..<length (rowMap (current ls))])"

text \<open>Modelled from the spec: the Edit Engine as the editor's \<open>EditorModel\<close>.\<close>

definition engineModel :: "engine editorModel" where
  "engineModel =
     \<lparr>totalRows = (\<lambda>e. int (length (original e))),
      totalColumns = (\<lambda>e. case original e of [] \<Rightarrow> 0 | row # _ \<Rightarrow> int (length row)),
      addRows = engineAddRows,
      addColumns = engineAddColumns,
      removeRows = engineRemoveRows,
      removeColumns = engineRemoveColumns,
      cut = engineCut,
      copy = engineCopy,
      paste = enginePaste,
      clearCells = engineClearCells,
      clearRows = engineClearRows,
      clearColumns = engineClearColumns,
      emitOppositeChange = engineEmitOppositeChange,
      emitCurrentChange = engineEmitCurrentChange,
      updateString = engineUpdateString,
      isDataFormatted = formatted,
      resetMetadata = (\<lambda>ls e. e)\<rparr>"

text \<open>
  Modelled from the spec: the engine of a newly loaded document, from the initial parse
  (a rectangular array of rows of text) and the delimiter. The keys of the loaded rows
  and columns are their positions, so the counter starts above them.
\<close>

definition newEngine :: "jsString list list \<Rightarrow> jsString \<Rightarrow> engine" where
  "newEngine parse delim =
     \<lparr>original = parse,
      nextKey = max (int (length parse)) (case parse of [] \<Rightarrow> 0 | row # _ \<Rightarrow> int (length row)),
      clipboard = [], delimiter = delim, changes = [], formatted = False\<rparr>"

section \<open>Runs of the editor\<close>

text \<open>
  What reaches the editor: a command from \<open>commandSignal\<close>, an update from the model's
  \<open>onChangedSignal\<close>, a paste event with its text, the delete key, and a change of the
  grid's selections by the user.
\<close>

datatype input =
    Command command
  | ModelSignal "modelChangedArgs option"
  | PasteText jsString
  | DeleteKey
  | Select "selection list"

definition handle :: "'m editorModel \<Rightarrow> input \<Rightarrow> 'm editor \<Rightarrow> error + 'm editor" where
  "handle dm i s =
     (case i of
        Command c \<Rightarrow> onCommand dm c s
      | ModelSignal update \<Rightarrow> updateModel dm update s
      | PasteText t \<Rightarrow> handlePaste dm t s
      | DeleteKey \<Rightarrow> onDelete dm s
      | Select sels \<Rightarrow> Inr (s\<lparr>selections := sels\<rparr>))"

fun run :: "'m editorModel \<Rightarrow> input list \<Rightarrow> 'm editor \<Rightarrow> error + 'm editor" where
  "run dm [] s = Inr s"
| "run dm (i # is) s = thenDo (handle dm i s) (run dm is)"

text \<open>The states an editor can be in: a loaded document, then any inputs that succeed.\<close>

inductive reachable :: "'m editorModel \<Rightarrow> 'm editor \<Rightarrow> bool" for dm :: "'m editorModel" where
  loaded: "updateGrid dm m data = Inr s \<Longrightarrow> reachable dm s"
| handled: "reachable dm s \<Longrightarrow> handle dm i s = Inr s' \<Longrightarrow> reachable dm s'"

section \<open>Notions for the properties\<close>

text \<open>The update an input hands to \<open>updateModel\<close>, if any.\<close>

definition handed :: "'m editorModel \<Rightarrow> input \<Rightarrow> 'm editor \<Rightarrow> modelChangedArgs option" where
  "handed dm i s =
     (case i of
        Command c \<Rightarrow>
          (case commandSwitch dm c s of
             Inr (Broke update a1 a2 b1 b2 s') \<Rightarrow> update
           | _ \<Rightarrow> None)
      | ModelSignal update \<Rightarrow> update
      | PasteText t \<Rightarrow>
          (case getSelectedRange s of
             None \<Rightarrow> None
           | Some x \<Rightarrow>
               fst (paste dm Body (Some (min (r1 x) (r2 x))) (Some (min (c1 x) (c2 x))) (Some t)
                      (store s) (dataModel s)))
      | DeleteKey \<Rightarrow>
          fst (clearCells dm Body
                 (map_option (\<lambda>x. (Some (r1 x), Some (r2 x), Some (c1 x), Some (c2 x)))
                    (currentSelection s))
                 (store s) (dataModel s))
      | Select sels \<Rightarrow> None)"

text \<open>
  Whether a non-init transaction has been committed since the last save, after the
  inputs \<open>is\<close> from the state \<open>s\<close>, given whether one had been before (\<open>b\<close>).
\<close>

fun unsavedAfter :: "'m editorModel \<Rightarrow> input list \<Rightarrow> 'm editor \<Rightarrow> bool \<Rightarrow> bool" where
  "unsavedAfter dm [] s b = b"
| "unsavedAfter dm (i # is) s b =
     (case handle dm i s of
        Inl e \<Rightarrow> b
      | Inr s' \<Rightarrow>
          unsavedAfter dm is s'
            (if i = Command Save then False
             else case handed dm i s of
                    Some u \<Rightarrow> updType u \<noteq> Some initType \<or> b
                  | None \<Rightarrow> b))"

subsection \<open>Patches that fit the record\<close>

text \<open>
  A list patch fits a list before it is applied when the keys it removes stand at its
  position; the changes of a value patch fit a map when each old value is the one the
  map holds at that point; a transaction fits a record before it is applied when all of
  its parts do, and after it when undoing it leads to a record it fits and applying it
  again leads back.
\<close>

definition fitsBefore :: "listPatch \<Rightarrow> int list \<Rightarrow> bool" where
  "fitsBefore p xs \<longleftrightarrow>
     position p + length (removed p) \<le> length xs
     \<and> take (length (removed p)) (drop (position p) xs) = removed p"

fun valuesBefore ::
  "(jsString \<times> jsString option \<times> jsString option) list \<Rightarrow> (jsString \<Rightarrow> jsString option) \<Rightarrow> bool" where
  "valuesBefore [] m = True"
| "valuesBefore ((k, old, new) # ps) m = (m k = old \<and> valuesBefore ps (m(k := new)))"

definition txBefore :: "transaction \<Rightarrow> datamodel \<Rightarrow> bool" where
  "txBefore t r \<longleftrightarrow>
     fitsBefore (rowPatch t) (rowMap r) \<and> fitsBefore (columnPatch t) (columnMap r)
     \<and> valuesBefore (valuePatch t) (valueMap r)
     \<and> selection r = fst (selectionPatch t) \<and> gridState r = fst (gridStatePatch t)"

definition txAfter :: "transaction \<Rightarrow> datamodel \<Rightarrow> bool" where
  "txAfter t r \<longleftrightarrow> txBefore t (unapplyPatch t r) \<and> applyPatch t (unapplyPatch t r) = r"

text \<open>
  A record agrees with an undo stack when each transaction, from the top, fits after,
  and with a redo stack when each transaction, from the top, fits before.
\<close>

fun undoable :: "datamodel \<Rightarrow> transaction list \<Rightarrow> bool" where
  "undoable r [] = True"
| "undoable r (t # ts) = (txAfter t r \<and> undoable (unapplyPatch t r) ts)"

fun redoable :: "datamodel \<Rightarrow> transaction list \<Rightarrow> bool" where
  "redoable r [] = True"
| "redoable r (t # ts) = (txBefore t r \<and> redoable (applyPatch t r) ts)"

definition consistent :: "litestore \<Rightarrow> bool" where
  "consistent ls \<longleftrightarrow>
     undoable (current ls) (undoStack ls) \<and> redoable (current ls) (redoStack ls)"

subsection \<open>A loaded document and some edits of it\<close>

text \<open>
  The grid \<open>[["a","b","c"],["1","2","3"],["x","y","z"]]\<close> with the comma as delimiter,
  and the editor that \<open>_updateGrid\<close> builds for it.
\<close>

definition exampleParse :: "jsString list list" where
  "exampleParse = [[[97], [98], [99]], [[49], [50], [51]], [[120], [121], [122]]]"

definition loadedExample :: "engine editor" where
  "loadedExample =
     \<lparr>dataModel = newEngine exampleParse [44],
      store =
        \<lparr>current = \<lparr>rowMap = [0, 1, 2], columnMap = [0, 1, 2], valueMap = (\<lambda>k. None),
                     selection = None, gridState = None\<rparr>,
         undoStack =
           [\<lparr>rowPatch = \<lparr>position = 0, removed = [], inserted = [0, 1, 2]\<rparr>,
             columnPatch = \<lparr>position = 0, removed = [], inserted = [0, 1, 2]\<rparr>,
             valuePatch = [], selectionPatch = (None, None), gridStatePatch = (None, None)\<rparr>],
         redoStack = []\<rparr>,
      selections = [], dirty = False, contextText = []\<rparr>"

text \<open>Whether a call returned, and the editor after some inputs to the loaded document.\<close>

definition succeeds :: "error + 'a \<Rightarrow> bool" where
  "succeeds r = (case r of Inl e \<Rightarrow> False | Inr x \<Rightarrow> True)"

definition exampleAfter :: "input list \<Rightarrow> engine editor" where
  "exampleAfter is =
     (case run engineModel is loadedExample of Inl e \<Rightarrow> loadedExample | Inr s \<Rightarrow> s)"

definition rowsZeroToTwo :: selection where
  "rowsZeroToTwo = \<lparr>r1 = 0, r2 = 2, c1 = 0, c2 = 0\<rparr>"

definition rowOne :: selection where
  "rowOne = \<lparr>r1 = 1, r2 = 1, c1 = 0, c2 = 0\<rparr>"

definition cornerCell :: selection where
  "cornerCell = \<lparr>r1 = 2, r2 = 2, c1 = 2, c2 = 2\<rparr>"

text \<open>The clipboard text \<open>"1,2\n3,4"\<close>.\<close>

definition pastedText :: jsString where
  "pastedText = [49, 44, 50, 10, 51, 44, 52]"

text \<open>The user selects the first column of rows 0 to 2 and clears the cells.\<close>

definition clearedInputs :: "input list" where
  "clearedInputs = [Select [rowsZeroToTwo], Command ClearCells]"

text \<open>The transaction of that edit, and the grid state it records.\<close>

definition clearTransaction :: transaction where
  "clearTransaction =
     \<lparr>rowPatch = \<lparr>position = 0, removed = [], inserted = []\<rparr>,
      columnPatch = \<lparr>position = 0, removed = [], inserted = []\<rparr>,
      valuePatch = [([48, 44, 48], None, Some []), ([49, 44, 48], None, Some []),
                    ([50, 44, 48], None, Some [])],
      selectionPatch = (None, Some rowsZeroToTwo),
      gridStatePatch =
        (None, Some \<lparr>currentRows = 3, currentColumns = 3,
                     nextChange = CellsChanged Body 0 0 3 1,
                     nextCommand = Some ClearCells\<rparr>)\<rparr>"

definition clearedState :: gridState where
  "clearedState =
     \<lparr>currentRows = 3, currentColumns = 3, nextChange = CellsChanged Body 0 0 3 1,
      nextCommand = Some ClearCells\<rparr>"

text \<open>
  An edit, a save, an undo, and then the insertion of a row below row 1.
\<close>

definition savedInputs :: "input list" where
  "savedInputs =
     [Select [rowsZeroToTwo], Command ClearCells, Command Save, Command Undo,
      Select [rowOne], Command InsertRowsBelow]"

section \<open>What the steps of the widget do to the editor\<close>

lemma recomputeMetadata_fields [simp]:
  "store (recomputeMetadata dm s) = store s"
  "selections (recomputeMetadata dm s) = selections s"
  "dirty (recomputeMetadata dm s) = dirty s"
  by (simp_all add: recomputeMetadata_def)

lemma updateModel_None [simp]: "updateModel dm None s = Inr (recomputeMetadata dm s)"
  by (simp add: updateModel_def)

lemma updateModel_Some:
  assumes "updateModel dm (Some u) s = Inr s'"
  shows "\<exists>a b c d e. commit a b c d e (store s) = Inr (store s')"
    and "selections s' = selections s"
    and "dirty s' = (updType u \<noteq> Some initType \<or> dirty s)"
proof -
  from assms obtain ls where
    c: "commit (case rowUpdate u of None \<Rightarrow> NULL_NUM_SPLICE | Some sp \<Rightarrow> sp)
          (case columnUpdate u of None \<Rightarrow> NULL_NUM_SPLICE | Some sp \<Rightarrow> sp)
          (valueUpdate u)
          (case updSelection u of None \<Rightarrow> currentSelection s | Some x \<Rightarrow> Some x)
          (gridStateUpdate u) (store s) = Inr ls"
    and s': "s' = (if updType u = Some initType then s\<lparr>store := ls\<rparr>
                   else recomputeMetadata dm (s\<lparr>store := ls, dirty := True\<rparr>))"
    by (auto simp: updateModel_def split: sum.splits if_splits)
  from s' have "store s' = ls" by simp
  with c show "\<exists>a b c d e. commit a b c d e (store s) = Inr (store s')" by blast
  from s' show "selections s' = selections s" by simp
  from s' show "dirty s' = (updType u \<noteq> Some initType \<or> dirty s)" by simp
qed

lemma commit_stacks:
  assumes "commit a b c d e ls = Inr ls'"
  shows "redoStack ls' = []" and "\<exists>t. undoStack ls' = t # undoStack ls"
  using assms by (auto simp: commit_def split: sum.splits prod.splits)

lemma selectCellsAt_fields:
  assumes "selectCellsAt a1 a2 b1 b2 s = Inr s'"
  shows "store s' = store s" and "dirty s' = dirty s" and "dataModel s' = dataModel s"
  using assms by (auto simp: selectCellsAt_def selectCells_def split: option.splits)

lemma afterSwitch_None [simp]:
  "afterSwitch dm c sel a1 a2 b1 b2 None s = Inr (recomputeMetadata dm s)"
  by (simp add: afterSwitch_def)

lemma afterSwitch_Some:
  assumes "afterSwitch dm c sel a1 a2 b1 b2 (Some u) s = Inr s'"
  shows "\<exists>a b c d e. commit a b c d e (store s) = Inr (store s')"
    and "dirty s' = (updType u \<noteq> Some initType \<or> dirty s)"
proof -
  from assms obtain gs s1 where
    g: "gridStateUpdate u = Some gs" and
    s1: "selectCellsAt a1 a2 b1 b2 s = Inr s1" and
    u: "updateModel dm (Some (u\<lparr>updSelection := sel,
          gridStateUpdate := Some (gs\<lparr>nextCommand := Some c\<rparr>)\<rparr>)) s1 = Inr s'"
    by (auto simp: afterSwitch_def thenDo_def split: option.splits sum.splits)
  from updateModel_Some(1) [OF u] selectCellsAt_fields(1) [OF s1]
  show "\<exists>a b c d e. commit a b c d e (store s) = Inr (store s')" by simp
  from updateModel_Some(3) [OF u] selectCellsAt_fields(2) [OF s1]
  show "dirty s' = (updType u \<noteq> Some initType \<or> dirty s)" by simp
qed

lemma editCase_fields:
  assumes "editCase a1 a2 b1 b2 edit s = Inr r"
  shows "\<exists>update m. r = Broke update a1 a2 b1 b2 (s\<lparr>dataModel := m\<rparr>)"
  using assms by (auto simp: editCase_def split: prod.splits)

text \<open>The switch leaves the store alone, except for undo and redo; only save touches dirty.\<close>

lemma commandSwitch_Broke:
  assumes "commandSwitch dm c s = Inr (Broke update a1 a2 b1 b2 s1)"
  shows "dirty s1 = (if c = Save then False else dirty s)"
    and "store s1 = (if c = Undo then undo (store s) else if c = Redo then redo (store s) else store s)"
    and "c = Undo \<or> c = Redo \<or> c = Save \<Longrightarrow> update = None"
  using assms
  by (cases c;
      auto simp: commandSwitch_def Let_def save_def selectCells_def
           dest!: editCase_fields split: option.splits if_splits)+

lemma commandSwitch_Returned:
  assumes "commandSwitch dm c s = Inr (Returned s1)"
  shows "s1 = s"
    and "(c = Undo \<and> length (undoStack (store s)) = 1) \<or> (c = Redo \<and> redoStack (store s) = [])"
  using assms
  by (cases c;
      auto simp: commandSwitch_def Let_def dest!: editCase_fields split: option.splits if_splits)+

lemma onCommand_cases:
  assumes "onCommand dm c s = Inr s'"
  obtains (returned) "commandSwitch dm c s = Inr (Returned s)" "s' = s"
  | (broke) update a1 a2 b1 b2 s1 where
      "commandSwitch dm c s = Inr (Broke update a1 a2 b1 b2 s1)"
      "afterSwitch dm c (currentSelection s) a1 a2 b1 b2 update s1 = Inr s'"
proof (cases "commandSwitch dm c s")
  case (Inl e)
  with assms show ?thesis by (simp add: onCommand_def thenDo_def)
next
  case (Inr r)
  show ?thesis
  proof (cases r)
    case (Returned s1)
    from Inr Returned have sw: "commandSwitch dm c s = Inr (Returned s1)" by simp
    from commandSwitch_Returned(1) [OF sw] have e: "s1 = s" .
    from assms sw have "s' = s1" by (simp add: onCommand_def thenDo_def)
    with e sw show ?thesis by (intro returned) simp_all
  next
    case (Broke update a1 a2 b1 b2 s1)
    from Inr Broke have sw: "commandSwitch dm c s = Inr (Broke update a1 a2 b1 b2 s1)" by simp
    from assms sw
    have "afterSwitch dm c (currentSelection s) a1 a2 b1 b2 update s1 = Inr s'"
      by (simp add: onCommand_def thenDo_def)
    with sw show ?thesis by (rule broke)
  qed
qed

text \<open>A handled input with an update commits one transaction and sets dirty unless it is init.\<close>

lemma handle_handed_Some:
  assumes "handle dm i s = Inr s'" "handed dm i s = Some u"
  shows "\<exists>a b c d e. commit a b c d e (store s) = Inr (store s')"
    and "dirty s' = (updType u \<noteq> Some initType \<or> dirty s)"
    and "i \<noteq> Command Save"
proof -
  have "(\<exists>a b c d e. commit a b c d e (store s) = Inr (store s'))
        \<and> dirty s' = (updType u \<noteq> Some initType \<or> dirty s) \<and> i \<noteq> Command Save"
  proof (cases i)
    case (Command c)
    with assms have oc: "onCommand dm c s = Inr s'" by (simp add: handle_def)
    from oc show ?thesis
    proof (cases rule: onCommand_cases)
      case returned
      with assms Command show ?thesis by (simp add: handed_def)
    next
      case (broke update a1 a2 b1 b2 s1)
      with assms Command have up: "update = Some u" by (simp add: handed_def)
      from commandSwitch_Broke [OF broke(1)] up
      have f: "dirty s1 = dirty s" "store s1 = store s" "c \<noteq> Save"
        by (auto split: if_splits)
      from afterSwitch_Some [OF broke(2) [unfolded up]] f Command show ?thesis by simp
    qed
  next
    case (ModelSignal update)
    with assms have "updateModel dm (Some u) s = Inr s'" by (simp add: handle_def handed_def)
    from updateModel_Some(1,3) [OF this] ModelSignal show ?thesis by simp
  next
    case (PasteText t)
    with assms obtain x m where
      "updateModel dm (Some u) (s\<lparr>dataModel := m\<rparr>) = Inr s'"
      by (auto simp: handle_def handed_def handlePaste_def Let_def
          split: option.splits prod.splits)
    from updateModel_Some(1,3) [OF this] PasteText show ?thesis by simp
  next
    case DeleteKey
    with assms obtain m where
      "updateModel dm (Some u) (s\<lparr>dataModel := m\<rparr>) = Inr s'"
      by (auto simp: handle_def handed_def onDelete_def split: prod.splits)
    from updateModel_Some(1,3) [OF this] DeleteKey show ?thesis by simp
  next
    case (Select sels)
    with assms show ?thesis by (simp add: handed_def)
  qed
  then show "\<exists>a b c d e. commit a b c d e (store s) = Inr (store s')"
    and "dirty s' = (updType u \<noteq> Some initType \<or> dirty s)"
    and "i \<noteq> Command Save" by blast+
qed

text \<open>A handled input without an update commits nothing; only save changes dirty.\<close>

lemma handle_handed_None:
  assumes "handle dm i s = Inr s'" "handed dm i s = None"
  shows "store s' = store s \<or> store s' = undo (store s) \<or> store s' = redo (store s)"
    and "dirty s' = (if i = Command Save then False else dirty s)"
proof -
  have "(store s' = store s \<or> store s' = undo (store s) \<or> store s' = redo (store s))
        \<and> dirty s' = (if i = Command Save then False else dirty s)"
  proof (cases i)
    case (Command c)
    with assms have oc: "onCommand dm c s = Inr s'" by (simp add: handle_def)
    from oc show ?thesis
    proof (cases rule: onCommand_cases)
      case returned
      from commandSwitch_Returned(2) [OF returned(1)] returned(2) Command
      show ?thesis by auto
    next
      case (broke update a1 a2 b1 b2 s1)
      with assms Command have up: "update = None" by (simp add: handed_def)
      with broke(2) have "s' = recomputeMetadata dm s1" by simp
      with commandSwitch_Broke(1,2) [OF broke(1)] Command show ?thesis
        by (auto split: if_splits)
    qed
  next
    case (ModelSignal update)
    with assms show ?thesis by (auto simp: handle_def handed_def)
  next
    case (PasteText t)
    with assms show ?thesis
      by (auto simp: handle_def handed_def handlePaste_def Let_def
          split: option.splits prod.splits)
  next
    case DeleteKey
    with assms show ?thesis
      by (auto simp: handle_def handed_def onDelete_def split: prod.splits)
  next
    case (Select sels)
    with assms show ?thesis by (auto simp: handle_def)
  qed
  then show "store s' = store s \<or> store s' = undo (store s) \<or> store s' = redo (store s)"
    and "dirty s' = (if i = Command Save then False else dirty s)" by blast+
qed

lemma run_dirty: "run dm is s = Inr s' \<Longrightarrow> dirty s' = unsavedAfter dm is s (dirty s)"
proof (induction "is" arbitrary: s)
  case Nil
  then show ?case by simp
next
  case (Cons i "is")
  from Cons.prems obtain s1 where
    h: "handle dm i s = Inr s1" and r: "run dm is s1 = Inr s'"
    by (auto simp: thenDo_def split: sum.splits)
  have "dirty s1 =
          (if i = Command Save then False
           else case handed dm i s of
                  Some u \<Rightarrow> updType u \<noteq> Some initType \<or> dirty s
                | None \<Rightarrow> dirty s)"
  proof (cases "handed dm i s")
    case None
    from handle_handed_None(2) [OF h None] None show ?thesis by simp
  next
    case (Some u)
    from handle_handed_Some(2,3) [OF h Some] Some show ?thesis by simp
  qed
  with Cons.IH [OF r] h show ?case by simp
qed

lemma updateGrid_clean: "updateGrid dm m data = Inr s \<Longrightarrow> \<not> dirty s"
  by (auto simp: updateGrid_def dest!: updateModel_Some(3))

lemma run_append: "run dm (is @ js) s = thenDo (run dm is s) (run dm js)"
  by (induction "is" arbitrary: s) (auto simp: thenDo_def split: sum.splits)

section \<open>Undoing and redoing patches\<close>

lemma undoList_redoList: "fitsBefore p xs \<Longrightarrow> undoList p (redoList p xs) = xs"
proof -
  assume f: "fitsBefore p xs"
  then have le: "position p \<le> length xs" by (simp add: fitsBefore_def)
  have "undoList p (redoList p xs)
        = take (position p) xs @ removed p @ drop (position p + length (removed p)) xs"
    using le by (simp add: undoList_def redoList_def min_absorb2)
  also have "removed p @ drop (position p + length (removed p)) xs = drop (position p) xs"
  proof -
    have "drop (position p) xs
          = take (length (removed p)) (drop (position p) xs)
            @ drop (length (removed p)) (drop (position p) xs)"
      by (simp only: append_take_drop_id)
    with f show ?thesis by (simp add: fitsBefore_def add.commute)
  qed
  finally show ?thesis by simp
qed

lemma undoValues_redoValues: "valuesBefore ps m \<Longrightarrow> undoValues ps (redoValues ps m) = m"
proof (induction ps arbitrary: m)
  case Nil
  then show ?case by simp
next
  case (Cons p ps)
  obtain k old new where p: "p = (k, old, new)" by (cases p)
  from Cons.prems p have b: "valuesBefore ps (m(k := new))" and a: "m k = old"
    by simp_all
  from Cons.IH [of "m(k := new)", OF b]
  have "undoValues ps (redoValues ps (m(k := new))) = m(k := new)" .
  with a p show ?case by auto
qed

lemma unapply_apply: "txBefore t r \<Longrightarrow> unapplyPatch t (applyPatch t r) = r"
  by (simp add: txBefore_def applyPatch_def unapplyPatch_def undoList_redoList
      undoValues_redoValues)

lemma txAfter_apply: "txBefore t r \<Longrightarrow> txAfter t (applyPatch t r)"
  by (simp add: txAfter_def unapply_apply)

lemma applySplice_fits:
  assumes "applySplice sp xs = Inr (ys, p)"
  shows "fitsBefore p xs" and "redoList p xs = ys"
  using assms
  by (auto simp: applySplice_def fitsBefore_def redoList_def split: if_splits)

lemma applyValueUpdate_fits:
  "applyValueUpdate kvs m = (m', ps) \<Longrightarrow> valuesBefore ps m \<and> redoValues ps m = m'"
proof (induction kvs arbitrary: m m' ps)
  case Nil
  then show ?case by simp
next
  case (Cons kv kvs)
  obtain k v where kv: "kv = (k, v)" by (cases kv)
  obtain m1 p1 where r: "applyValueUpdate kvs (m(k := v)) = (m1, p1)"
    by (cases "applyValueUpdate kvs (m(k := v))")
  with Cons.prems kv have e: "m' = m1" "ps = (k, m k, v) # p1" by simp_all
  from Cons.IH [OF r]
  have "valuesBefore p1 (m(k := v)) \<and> redoValues p1 (m(k := v)) = m1" .
  with e show ?case by (simp del: fun_upd_apply)
qed

lemma commit_transaction:
  assumes "commit a b c d e ls = Inr ls'"
  shows "\<exists>t. txBefore t (current ls) \<and> current ls' = applyPatch t (current ls)
              \<and> undoStack ls' = t # undoStack ls \<and> redoStack ls' = []"
proof -
  from assms obtain rows rp cols cp vm vp where
    r: "applySplice a (rowMap (current ls)) = Inr (rows, rp)" and
    c: "applySplice b (columnMap (current ls)) = Inr (cols, cp)" and
    v: "applyValueUpdate (case c of None \<Rightarrow> [] | Some kvs \<Rightarrow> kvs) (valueMap (current ls)) = (vm, vp)" and
    ls': "ls' = \<lparr>current = \<lparr>rowMap = rows, columnMap = cols, valueMap = vm,
                              selection = d, gridState = e\<rparr>,
                 undoStack =
                   \<lparr>rowPatch = rp, columnPatch = cp, valuePatch = vp,
                    selectionPatch = (selection (current ls), d),
                    gridStatePatch = (gridState (current ls), e)\<rparr> # undoStack ls,
                 redoStack = []\<rparr>"
    by (auto simp: commit_def split: sum.splits prod.splits)
  let ?t = "\<lparr>rowPatch = rp, columnPatch = cp, valuePatch = vp,
             selectionPatch = (selection (current ls), d),
             gridStatePatch = (gridState (current ls), e)\<rparr>"
  from applySplice_fits [OF r] applySplice_fits [OF c] applyValueUpdate_fits [OF v]
  have "txBefore ?t (current ls)" "current ls' = applyPatch ?t (current ls)"
    using ls' by (simp_all add: txBefore_def applyPatch_def)
  with ls' show ?thesis by auto
qed

lemma consistent_commit:
  assumes "consistent ls" "commit a b c d e ls = Inr ls'"
  shows "consistent ls'"
proof -
  from commit_transaction [OF assms(2)] obtain t where
    t: "txBefore t (current ls)" "current ls' = applyPatch t (current ls)"
       "undoStack ls' = t # undoStack ls" "redoStack ls' = []"
    by blast
  with assms(1) show ?thesis
    by (simp add: consistent_def txAfter_apply unapply_apply)
qed

lemma consistent_undo: "consistent ls \<Longrightarrow> consistent (undo ls)"
  by (auto simp: consistent_def undo_def txAfter_def split: list.splits)

lemma consistent_redo: "consistent ls \<Longrightarrow> consistent (redo ls)"
  by (auto simp: consistent_def redo_def txAfter_apply unapply_apply split: list.splits)

lemma redo_undo:
  assumes "consistent ls" "undoStack ls = t # t' # ts"
  shows "redo (undo ls) = ls"
  using assms by (simp add: consistent_def undo_def redo_def txAfter_def)

lemma undo_nonempty: "undoStack ls \<noteq> [] \<Longrightarrow> undoStack (undo ls) \<noteq> []"
  by (auto simp: undo_def split: list.splits)

lemma redo_nonempty: "undoStack ls \<noteq> [] \<Longrightarrow> undoStack (redo ls) \<noteq> []"
  by (auto simp: redo_def split: list.splits)

lemma handle_consistent:
  assumes "handle dm i s = Inr s'" "consistent (store s)" "undoStack (store s) \<noteq> []"
  shows "consistent (store s') \<and> undoStack (store s') \<noteq> []"
proof (cases "handed dm i s")
  case None
  from handle_handed_None(1) [OF assms(1) None] assms(2,3) show ?thesis
    by (auto simp: consistent_undo consistent_redo undo_nonempty redo_nonempty)
next
  case (Some u)
  from handle_handed_Some(1) [OF assms(1) Some] obtain a b c d e where
    c: "commit a b c d e (store s) = Inr (store s')" by blast
  from consistent_commit [OF assms(2) c] commit_transaction [OF c] show ?thesis by auto
qed

lemma consistent_new: "consistent newLitestore"
  by (simp add: consistent_def newLitestore_def)

lemma reachable_consistent:
  "reachable dm s \<Longrightarrow> consistent (store s) \<and> undoStack (store s) \<noteq> []"
proof (induction rule: reachable.induct)
  case (loaded m data s)
  then obtain a b c d e where
    c: "commit a b c d e newLitestore = Inr (store s)"
    by (auto simp: updateGrid_def dest!: updateModel_Some(1))
  from consistent_commit [OF consistent_new c] commit_transaction [OF c] show ?case by auto
next
  case (handled s i s')
  then show ?case using handle_consistent by blast
qed

lemma reachable_run: "reachable dm s \<Longrightarrow> run dm is s = Inr s' \<Longrightarrow> reachable dm s'"
proof (induction "is" arbitrary: s)
  case Nil
  then show ?case by simp
next
  case (Cons i "is")
  from Cons.prems(2) obtain s1 where
    h: "handle dm i s = Inr s1" and r: "run dm is s1 = Inr s'"
    by (auto simp: thenDo_def split: sum.splits)
  from Cons.prems(1) h have "reachable dm s1" by (rule reachable.handled)
  from Cons.IH [OF this r] show ?case .
qed

section \<open>The example runs\<close>

lemma loadedExample_loaded:
  "updateGrid engineModel (newEngine exampleParse [44]) [] = Inr loadedExample"
  by (simp add: updateGrid_def updateModel_def commit_def applySplice_def newLitestore_def
      engineModel_def newEngine_def exampleParse_def loadedExample_def initType_def
      currentSelection_def upto.simps)

lemma exampleAfter_run:
  "succeeds (run engineModel is loadedExample) \<Longrightarrow>
   run engineModel is loadedExample = Inr (exampleAfter is)"
  by (auto simp: succeeds_def exampleAfter_def split: sum.splits)

lemma exampleAfter_step:
  assumes "succeeds (run engineModel (is @ [i]) loadedExample)"
  shows "handle engineModel i (exampleAfter is) = Inr (exampleAfter (is @ [i]))"
proof -
  from assms have "succeeds (run engineModel is loadedExample)"
    by (auto simp: run_append succeeds_def thenDo_def split: sum.splits)
  from exampleAfter_run [OF this] exampleAfter_run [OF assms]
  show ?thesis by (auto simp: run_append thenDo_def split: sum.splits)
qed

lemma loadedExample_reachable: "reachable engineModel loadedExample"
  using loadedExample_loaded by (rule reachable.loaded)

lemma exampleAfter_reachable:
  "succeeds (run engineModel is loadedExample) \<Longrightarrow> reachable engineModel (exampleAfter is)"
  using reachable_run [OF loadedExample_reachable exampleAfter_run] .

lemma cleared_ok: "succeeds (run engineModel clearedInputs loadedExample)"
  by code_simp

lemma undone_ok: "succeeds (run engineModel (clearedInputs @ [Command Undo]) loadedExample)"
  by code_simp

lemma redone_ok:
  "succeeds (run engineModel ((clearedInputs @ [Command Undo]) @ [Command Redo]) loadedExample)"
  by code_simp

lemma undone_redoStack:
  "redoStack (store (exampleAfter (clearedInputs @ [Command Undo]))) = [clearTransaction]"
  by code_simp

lemma recommitted_ok:
  "succeeds (run engineModel ((clearedInputs @ [Command Undo]) @ [Command InsertRowsBelow])
               loadedExample)"
  by code_simp

lemma undone_redo_nonempty:
  "redoStack (store (exampleAfter (clearedInputs @ [Command Undo]))) \<noteq> []"
  by code_simp

lemma undone_hands_update:
  "handed engineModel (Command InsertRowsBelow) (exampleAfter (clearedInputs @ [Command Undo]))
   \<noteq> None"
  by code_simp

lemma saved_ok: "succeeds (run engineModel savedInputs loadedExample)"
  by code_simp

lemma saved_dirty: "unsavedAfter engineModel savedInputs loadedExample False"
  by code_simp

lemma cleared_facts:
  "length (undoStack (store (exampleAfter clearedInputs))) \<noteq> 1"
  "selection (current (store (exampleAfter clearedInputs))) = Some rowsZeroToTwo"
  "gridState (current (store (exampleAfter clearedInputs))) = Some clearedState"
  "redoSelection (nextCommand clearedState) (nextChange clearedState)
     (\<bar>r2 rowsZeroToTwo - r1 rowsZeroToTwo\<bar> + 1) (\<bar>c2 rowsZeroToTwo - c1 rowsZeroToTwo\<bar> + 1)
     rowsZeroToTwo = Some rowsZeroToTwo"
  by code_simp+

lemma corner_ok: "succeeds (run engineModel [Select [cornerCell]] loadedExample)"
  by code_simp

lemma corner_facts:
  "getSelectedRange (exampleAfter [Select [cornerCell]]) = Some cornerCell"
  "0 \<le> min (r1 cornerCell) (r2 cornerCell)"
  "0 \<le> min (c1 cornerCell) (c2 cornerCell)"
  by code_simp+

lemma corner_pasted:
  "map_sum id (\<lambda>s. (rowMap (current (store s)), columnMap (current (store s)),
                     length (undoStack (store s)),
                     map (\<lambda>(k, old, new). (k, new)) (valuePatch (hd (undoStack (store s))))))
     (handlePaste engineModel pastedText (exampleAfter [Select [cornerCell]]))
   = Inr ([0, 1, 2, 3], [0, 1, 2, 4], 2,
          [([50, 44, 50], Some [49]), ([50, 44, 52], Some [50]),
           ([51, 44, 50], Some [51]), ([51, 44, 52], Some [52])])"
  by code_simp

section \<open>Parsing and pasting\<close>

lemma splitOn_nonempty: "splitOn d cur xs \<noteq> []"
  by (induction d cur xs rule: splitOn.induct) auto

lemma joinWith_Cons:
  "ps \<noteq> [] \<Longrightarrow> joinWith d (p # ps) = p @ d @ joinWith d ps"
  by (cases ps) (simp_all add: joinWith_def)

lemma joinWith_splitOn: "joinWith d (splitOn d cur xs) = rev cur @ xs"
proof (induction d cur xs rule: splitOn.induct)
  case (1 d cur)
  then show ?case by (simp add: joinWith_def)
next
  case (2 d cur x xs)
  show ?case
  proof (cases "d \<noteq> [] \<and> take (length d) (x # xs) = d")
    case True
    then have "joinWith d (splitOn d cur (x # xs))
               = rev cur @ d @ joinWith d (splitOn d [] (drop (length d) (x # xs)))"
      by (simp add: joinWith_Cons splitOn_nonempty)
    also have "\<dots> = rev cur @ take (length d) (x # xs) @ drop (length d) (x # xs)"
      using True 2(1) by simp
    finally show ?thesis by (simp only: append_take_drop_id)
  next
    case False
    with 2(2) show ?thesis by auto
  qed
qed

lemma joinWith_single [simp]: "joinWith d [p] = p"
  by (simp add: joinWith_def)

lemma parseBlock_joined:
  "joinWith [LF] (map (joinWith delim) (parseBlock delim text)) = text"
proof -
  have "map (joinWith delim) (parseBlock delim text) = splitOn [LF] [] text"
    by (simp add: parseBlock_def Let_def joinWith_splitOn map_idI)
  then show ?thesis by (simp add: joinWith_splitOn)
qed

lemma parseBlock_nonempty: "parseBlock delim text \<noteq> []"
  by (simp add: parseBlock_def Let_def splitOn_nonempty)

lemma applyValueUpdate_writes:
  "applyValueUpdate kvs m = (m', ps) \<Longrightarrow> map (\<lambda>(k, old, new). (k, new)) ps = kvs"
proof (induction kvs arbitrary: m m' ps)
  case Nil
  then show ?case by simp
next
  case (Cons kv kvs)
  obtain k v where kv: "kv = (k, v)" by (cases kv)
  obtain m1 p1 where r: "applyValueUpdate kvs (m(k := v)) = (m1, p1)"
    by (cases "applyValueUpdate kvs (m(k := v))")
  with Cons.prems kv have e: "ps = (k, m k, v) # p1" by simp
  from Cons.IH [OF r] e kv show ?case by simp
qed

lemma growSplice:
  assumes "0 \<le> k"
  shows "\<exists>p. applySplice
               (case (if 0 < k then Some \<lparr>index = int (length xs), remove = 0, vals = [a..a + k - 1]\<rparr>
                      else None) of
                  None \<Rightarrow> NULL_NUM_SPLICE | Some sp \<Rightarrow> sp) xs
             = Inr (xs @ [a..a + k - 1], p)
           \<and> inserted p = [a..a + k - 1] \<and> removed p = []"
proof (cases "0 < k")
  case True
  then show ?thesis by (simp add: applySplice_def)
next
  case False
  with assms have "k = 0" by simp
  then show ?thesis by (simp add: applySplice_def NULL_NUM_SPLICE_def)
qed

section \<open>Undo followed by redo\<close>

text \<open>
  Claim C1, as amended. In every state the editor can reach in which the undo stack holds
  a transaction besides the initial one, and the record holds a selection and a grid
  state (for a move command, a change with a destination), \<open>undo\<close> followed at once by
  \<open>redo\<close> both return and leave the Litestore as it was: row map, column map, value
  overlay, registers and both stacks. The only selection afterwards is the recorded
  selection of that transaction with the adjustment \<open>redo\<close> makes for its command,
  computed with the spans of the recorded selection; it is not in general the selection
  the grid had before the undo.
\<close>

theorem undo_then_redo:
  assumes "reachable dm s"
    and "length (undoStack (store s)) \<noteq> 1"
    and "selection (current (store s)) = Some x"
    and "gridState (current (store s)) = Some gs"
    and "redoSelection (nextCommand gs) (nextChange gs)
           (\<bar>r2 x - r1 x\<bar> + 1) (\<bar>c2 x - c1 x\<bar> + 1) x = Some x'"
  shows "\<exists>s1 s2. onCommand dm Undo s = Inr s1 \<and> onCommand dm Redo s1 = Inr s2
           \<and> store s2 = store s \<and> selections s2 = [x']"
proof -
  from reachable_consistent [OF assms(1)] have
    c: "consistent (store s)" and n: "undoStack (store s) \<noteq> []" by simp_all
  from n assms(2) obtain t t' ts where st: "undoStack (store s) = t # t' # ts"
    by (cases "undoStack (store s)"; cases "tl (undoStack (store s))") auto
  define s1 where
    "s1 = recomputeMetadata dm
            (selectCells x
               (s\<lparr>store := undo (store s),
                  dataModel := emitOppositeChange dm (Some gs) (undo (store s)) (dataModel s)\<rparr>))"
  have u: "onCommand dm Undo s = Inr s1"
    using assms(2,3,4)
    by (simp add: onCommand_def commandSwitch_def thenDo_def Let_def getRecord_def s1_def)
  have st1: "store s1 = undo (store s)" and sel1: "selections s1 = [x]"
    by (simp_all add: s1_def selectCells_def)
  from redo_undo [OF c st] have ru: "redo (store s1) = store s" by (simp add: st1)
  have ne: "redoStack (store s1) \<noteq> []"
    by (simp add: st1 undo_def st)
  define s2 where
    "s2 = recomputeMetadata dm
            (selectCells x'
               (s1\<lparr>store := store s,
                   dataModel := emitCurrentChange dm (nextChange gs) (store s) (dataModel s1)\<rparr>))"
  have r: "onCommand dm Redo s1 = Inr s2"
    using ne assms(3,4,5) sel1 ru
    by (simp add: onCommand_def commandSwitch_def thenDo_def Let_def getRecord_def s2_def
        rowsSelected_def columnsSelected_def currentSelection_def)
  have "store s2 = store s" "selections s2 = [x']"
    by (simp_all add: s2_def selectCells_def)
  with u r show ?thesis by blast
qed

text \<open>
  After clearing rows 0 to 2 of the first column: the record holds that selection, and
  undo followed by redo selects it again.
\<close>

theorem undo_then_redo_witness:
  "reachable engineModel (exampleAfter clearedInputs)
   \<and> length (undoStack (store (exampleAfter clearedInputs))) \<noteq> 1
   \<and> selection (current (store (exampleAfter clearedInputs))) = Some rowsZeroToTwo
   \<and> gridState (current (store (exampleAfter clearedInputs))) = Some clearedState
   \<and> (\<exists>s1 s2. onCommand engineModel Undo (exampleAfter clearedInputs) = Inr s1
         \<and> onCommand engineModel Redo s1 = Inr s2
         \<and> store s2 = store (exampleAfter clearedInputs) \<and> selections s2 = [rowsZeroToTwo])"
  using undo_then_redo [OF exampleAfter_reachable [OF cleared_ok] cleared_facts]
    exampleAfter_reachable [OF cleared_ok] cleared_facts
  by blast

text \<open>
  Claim C1 as stated fails. The user selects rows 0 to 2, clears the cells and then
  selects row 1: two transactions are on the undo stack and the selection is row 1.
  After undo and redo the selection is rows 0 to 2.
\<close>

theorem undo_then_redo_moves_selection:
  "map_sum id (length \<circ> undoStack \<circ> store)
     (thenDo (updateGrid engineModel (newEngine exampleParse [44]) [])
        (run engineModel [Select [rowsZeroToTwo], Command ClearCells, Select [rowOne]]))
   = Inr 2
   \<and> map_sum id selections
     (thenDo (updateGrid engineModel (newEngine exampleParse [44]) [])
        (run engineModel [Select [rowsZeroToTwo], Command ClearCells, Select [rowOne]]))
   = Inr [rowOne]
   \<and> map_sum id selections
     (thenDo (updateGrid engineModel (newEngine exampleParse [44]) [])
        (run engineModel [Select [rowsZeroToTwo], Command ClearCells, Select [rowOne],
                          Command Undo, Command Redo]))
   = Inr [rowsZeroToTwo]
   \<and> rowOne \<noteq> rowsZeroToTwo"
  by code_simp

section \<open>Undo and redo with nothing to undo or redo\<close>

text \<open>
  Claim C2. In every state whose undo stack holds only the initial transaction, the
  command \<open>undo\<close> returns the editor unchanged: no patch is applied, the selection stays,
  and the initial transaction stays on the undo stack.
\<close>

theorem undo_with_only_the_sentinel:
  "length (undoStack (store s)) = 1 \<Longrightarrow> onCommand dm Undo s = Inr s"
  by (simp add: onCommand_def commandSwitch_def thenDo_def Let_def)

text \<open>The loaded document has only the initial transaction.\<close>

theorem undo_with_only_the_sentinel_witness:
  "length (undoStack (store loadedExample)) = 1
   \<and> onCommand engineModel Undo loadedExample = Inr loadedExample"
  using undo_with_only_the_sentinel [of loadedExample engineModel]
  by (simp add: loadedExample_def)

text \<open>
  Claim C3. In every state whose redo stack is empty, the command \<open>redo\<close> returns the
  editor unchanged. Otherwise, when it returns, the top transaction of the redo stack has
  been popped, pushed on the undo stack, and its forward patch applied to the record.
\<close>

theorem redo_empty_or_replay:
  "(redoStack (store s) = [] \<longrightarrow> onCommand dm Redo s = Inr s)
   \<and> (\<forall>t ts s'. redoStack (store s) = t # ts \<and> onCommand dm Redo s = Inr s' \<longrightarrow>
          store s' = \<lparr>current = applyPatch t (current (store s)),
                      undoStack = t # undoStack (store s), redoStack = ts\<rparr>)"
proof (intro conjI allI impI)
  assume "redoStack (store s) = []"
  then show "onCommand dm Redo s = Inr s"
    by (simp add: onCommand_def commandSwitch_def thenDo_def Let_def)
next
  fix t ts s'
  assume h: "redoStack (store s) = t # ts \<and> onCommand dm Redo s = Inr s'"
  then have oc: "onCommand dm Redo s = Inr s'" by simp
  from oc have "store s' = redo (store s)"
  proof (cases rule: onCommand_cases)
    case returned
    from commandSwitch_Returned(2) [OF returned(1)] h show ?thesis by simp
  next
    case (broke update a1 a2 b1 b2 s1)
    from commandSwitch_Broke(2,3) [OF broke(1)] broke(2) show ?thesis by auto
  qed
  with h show "store s' = \<lparr>current = applyPatch t (current (store s)),
                      undoStack = t # undoStack (store s), redoStack = ts\<rparr>"
    by (simp add: redo_def)
qed

text \<open>
  The loaded document has nothing to redo; after clearing cells and undoing, the redo
  stack holds that one transaction, and \<open>redo\<close> replays it.
\<close>

theorem redo_empty_or_replay_witness:
  "redoStack (store loadedExample) = []
   \<and> onCommand engineModel Redo loadedExample = Inr loadedExample
   \<and> redoStack (store (exampleAfter (clearedInputs @ [Command Undo]))) = [clearTransaction]
   \<and> onCommand engineModel Redo (exampleAfter (clearedInputs @ [Command Undo]))
       = Inr (exampleAfter ((clearedInputs @ [Command Undo]) @ [Command Redo]))
   \<and> store (exampleAfter ((clearedInputs @ [Command Undo]) @ [Command Redo]))
       = \<lparr>current = applyPatch clearTransaction
                       (current (store (exampleAfter (clearedInputs @ [Command Undo])))),
          undoStack = clearTransaction
                       # undoStack (store (exampleAfter (clearedInputs @ [Command Undo]))),
          redoStack = []\<rparr>"
proof -
  have e: "redoStack (store loadedExample) = []" by (simp add: loadedExample_def)
  have r: "onCommand engineModel Redo (exampleAfter (clearedInputs @ [Command Undo]))
           = Inr (exampleAfter ((clearedInputs @ [Command Undo]) @ [Command Redo]))"
    using exampleAfter_step [OF redone_ok] by (simp add: handle_def)
  from redo_empty_or_replay [of loadedExample engineModel] e
  have "onCommand engineModel Redo loadedExample = Inr loadedExample" by blast
  moreover from redo_empty_or_replay [of "exampleAfter (clearedInputs @ [Command Undo])" engineModel]
    undone_redoStack r
  have "store (exampleAfter ((clearedInputs @ [Command Undo]) @ [Command Redo]))
       = \<lparr>current = applyPatch clearTransaction
                       (current (store (exampleAfter (clearedInputs @ [Command Undo])))),
          undoStack = clearTransaction
                       # undoStack (store (exampleAfter (clearedInputs @ [Command Undo]))),
          redoStack = []\<rparr>"
    by blast
  ultimately show ?thesis using e undone_redoStack r by blast
qed

section \<open>A fresh commit clears the redo stack\<close>

text \<open>
  Claim C4. Whenever an input hands an update to \<open>updateModel\<close> and is handled (a new
  transaction is committed), the redo stack is empty afterwards, whatever it held before,
  and a \<open>redo\<close> issued at once returns the editor unchanged.
\<close>

theorem fresh_commit_clears_redo:
  assumes "handle dm i s = Inr s'" and "handed dm i s \<noteq> None"
  shows "redoStack (store s') = [] \<and> onCommand dm Redo s' = Inr s'"
proof -
  from assms(2) obtain u where u: "handed dm i s = Some u" by auto
  from handle_handed_Some(1) [OF assms(1) u] obtain a b c d e where
    "commit a b c d e (store s) = Inr (store s')" by blast
  from commit_stacks(1) [OF this] have r: "redoStack (store s') = []" .
  then have "onCommand dm Redo s' = Inr s'"
    by (simp add: onCommand_def commandSwitch_def thenDo_def Let_def)
  with r show ?thesis by simp
qed

text \<open>
  After clearing cells and undoing, the redo stack is not empty; inserting a row then
  empties it.
\<close>

theorem fresh_commit_clears_redo_witness:
  "redoStack (store (exampleAfter (clearedInputs @ [Command Undo]))) \<noteq> []
   \<and> handle engineModel (Command InsertRowsBelow) (exampleAfter (clearedInputs @ [Command Undo]))
       = Inr (exampleAfter ((clearedInputs @ [Command Undo]) @ [Command InsertRowsBelow]))
   \<and> handed engineModel (Command InsertRowsBelow) (exampleAfter (clearedInputs @ [Command Undo]))
       \<noteq> None
   \<and> redoStack (store (exampleAfter ((clearedInputs @ [Command Undo]) @ [Command InsertRowsBelow])))
       = []
   \<and> onCommand engineModel Redo
        (exampleAfter ((clearedInputs @ [Command Undo]) @ [Command InsertRowsBelow]))
       = Inr (exampleAfter ((clearedInputs @ [Command Undo]) @ [Command InsertRowsBelow]))"
  using fresh_commit_clears_redo [OF exampleAfter_step [OF recommitted_ok] undone_hands_update]
    exampleAfter_step [OF recommitted_ok] undone_hands_update undone_redo_nonempty
  by blast

section \<open>The selection that redo restores\<close>

text \<open>
  Claim C5, at an input where the code departs from it. The user selects rows 0 to 2 and
  clears the cells, then selects row 1 and inserts a row below: that transaction records
  the selection row 1, inserts one row (the key 3), and the command leaves the selection
  on row 2. After two undos and two redos the record and the undo stack are the same,
  but the selection is row 4: \<open>redo\<close> shifts the recorded selection by the number of
  rows of the selection current when it is called (3, from the first transaction), not
  by the one row the transaction inserted.
\<close>

theorem redo_shifts_by_current_selection:
  "map_sum id (selection \<circ> current \<circ> store)
     (thenDo (updateGrid engineModel (newEngine exampleParse [44]) [])
        (run engineModel [Select [rowsZeroToTwo], Command ClearCells,
                          Select [rowOne], Command InsertRowsBelow]))
   = Inr (Some rowOne)
   \<and> map_sum id (inserted \<circ> rowPatch \<circ> hd \<circ> undoStack \<circ> store)
     (thenDo (updateGrid engineModel (newEngine exampleParse [44]) [])
        (run engineModel [Select [rowsZeroToTwo], Command ClearCells,
                          Select [rowOne], Command InsertRowsBelow]))
   = Inr [3]
   \<and> map_sum id selections
     (thenDo (updateGrid engineModel (newEngine exampleParse [44]) [])
        (run engineModel [Select [rowsZeroToTwo], Command ClearCells,
                          Select [rowOne], Command InsertRowsBelow]))
   = Inr [\<lparr>r1 = 2, r2 = 2, c1 = 0, c2 = 0\<rparr>]
   \<and> map_sum id (selection \<circ> current \<circ> store)
     (thenDo (updateGrid engineModel (newEngine exampleParse [44]) [])
        (run engineModel [Select [rowsZeroToTwo], Command ClearCells,
                          Select [rowOne], Command InsertRowsBelow,
                          Command Undo, Command Undo, Command Redo, Command Redo]))
   = Inr (Some rowOne)
   \<and> map_sum id (inserted \<circ> rowPatch \<circ> hd \<circ> undoStack \<circ> store)
     (thenDo (updateGrid engineModel (newEngine exampleParse [44]) [])
        (run engineModel [Select [rowsZeroToTwo], Command ClearCells,
                          Select [rowOne], Command InsertRowsBelow,
                          Command Undo, Command Undo, Command Redo, Command Redo]))
   = Inr [3]
   \<and> map_sum id selections
     (thenDo (updateGrid engineModel (newEngine exampleParse [44]) [])
        (run engineModel [Select [rowsZeroToTwo], Command ClearCells,
                          Select [rowOne], Command InsertRowsBelow,
                          Command Undo, Command Undo, Command Redo, Command Redo]))
   = Inr [\<lparr>r1 = 4, r2 = 4, c1 = 0, c2 = 0\<rparr>]"
  by code_simp

section \<open>Writing a cell\<close>

text \<open>
  Claim C6. For every cell position and every value, \<open>setData\<close> on the body region
  succeeds and emits one \<open>cells-changed\<close> event for that cell, whatever the model holds:
  a write of the value already stored is not filtered.
\<close>

theorem setData_always_emits:
  "\<exists>m'. setData headerLength setField Body row column v m = Inr (True, m')
        \<and> emitted m' = emitted m @ [CellsChanged Body row column 1 1]"
  by (simp add: setData_def)

section \<open>Pasting a text\<close>

text \<open>
  The two ways to paste read different selections: the paste event takes the first of
  the grid's selections (\<open>getSelectedRange\<close>), the command \<open>paste-cells\<close> the current one,
  which is the last. Both pass the minimum row and the minimum column to the model.
\<close>

lemma handlePaste_origin:
  assumes "selections s = x # rest"
  shows "handlePaste dm text s =
           (case paste dm Body (Some (min (r1 x) (r2 x))) (Some (min (c1 x) (c2 x))) (Some text)
                   (store s) (dataModel s) of
              (update, m) \<Rightarrow> updateModel dm update (s\<lparr>dataModel := m\<rparr>))"
  using assms by (simp add: handlePaste_def getSelectedRange_def Let_def)

lemma pasteCommand_origin:
  assumes "selections s = rest @ [x]"
  shows "commandSwitch dm PasteCells s =
           editCase (Some (min (r1 x) (r2 x))) (Some (max (r1 x) (r2 x)))
             (Some (min (c1 x) (c2 x))) (Some (max (c1 x) (c2 x)))
             (paste dm Body (Some (min (r1 x) (r2 x))) (Some (min (c1 x) (c2 x))) None) s"
  using assms by (simp add: commandSwitch_def currentSelection_def Let_def)

text \<open>
  Claim C7, at an input where the code departs from it. The user selects the cell in
  row 2, column 2 and then, in addition, the cell in row 1, column 0: the current
  selection is the second one. A paste event with the text \<open>"7"\<close> writes the cell with the
  key of row 2, column 2, the top-left cell of the first selection, not that of the
  current selection. The command \<open>paste-cells\<close> on the same selections (after copying the
  cell in row 1, column 0) writes the cell in row 1, column 0, the top-left cell of the
  current selection.
\<close>

theorem paste_event_uses_first_selection:
  "map_sum id currentSelection
     (thenDo (updateGrid engineModel (newEngine exampleParse [44]) [])
        (run engineModel [Select [cornerCell, rowOne]]))
   = Inr (Some rowOne)
   \<and> map_sum id (map_option nextChange \<circ> gridState \<circ> current \<circ> store)
     (thenDo (updateGrid engineModel (newEngine exampleParse [44]) [])
        (run engineModel [Select [cornerCell, rowOne], PasteText [55]]))
   = Inr (Some (CellsChanged Body 2 2 1 1))
   \<and> map_sum id (map fst \<circ> valuePatch \<circ> hd \<circ> undoStack \<circ> store)
     (thenDo (updateGrid engineModel (newEngine exampleParse [44]) [])
        (run engineModel [Select [cornerCell, rowOne], PasteText [55]]))
   = Inr [cellKey 2 2]
   \<and> map_sum id (map_option nextChange \<circ> gridState \<circ> current \<circ> store)
     (thenDo (updateGrid engineModel (newEngine exampleParse [44]) [])
        (run engineModel [Select [rowOne], Command CopyCells,
                          Select [cornerCell, rowOne], Command PasteCells]))
   = Inr (Some (CellsChanged Body 1 0 1 1))
   \<and> map_sum id (map fst \<circ> valuePatch \<circ> hd \<circ> undoStack \<circ> store)
     (thenDo (updateGrid engineModel (newEngine exampleParse [44]) [])
        (run engineModel [Select [rowOne], Command CopyCells,
                          Select [cornerCell, rowOne], Command PasteCells]))
   = Inr [cellKey 1 0]
   \<and> cellKey 2 2 \<noteq> cellKey 1 0"
  by code_simp

text \<open>
  What a paste event does with the Edit Engine as the model, for every text: with \<open>x\<close>
  the first selection, the origin is its minimum row and minimum column. The text is
  parsed into a block whose rows, joined by the delimiter and by line feeds, give back
  the text. The paste returns and commits one transaction: it appends to the row and
  column maps the keys needed for the block to fit (none is removed), so that the grid
  has at least the rows and columns the block reaches, and its value patch writes the
  cells of the block, row by row from the origin.
\<close>

lemma paste_event_commits_block:
  fixes s :: "engine editor"
  assumes "getSelectedRange s = Some x"
    and "0 \<le> min (r1 x) (r2 x)" and "0 \<le> min (c1 x) (c2 x)"
  shows "\<exists>s' t. handlePaste engineModel text s = Inr s'
           \<and> undoStack (store s') = t # undoStack (store s)
           \<and> rowMap (current (store s')) = rowMap (current (store s)) @ inserted (rowPatch t)
           \<and> columnMap (current (store s'))
               = columnMap (current (store s)) @ inserted (columnPatch t)
           \<and> removed (rowPatch t) = [] \<and> removed (columnPatch t) = []
           \<and> int (length (rowMap (current (store s'))))
               = max (int (length (rowMap (current (store s)))))
                   (min (r1 x) (r2 x) + int (length (parseBlock (delimiter (dataModel s)) text)))
           \<and> int (length (columnMap (current (store s'))))
               = max (int (length (columnMap (current (store s)))))
                   (min (c1 x) (c2 x)
                    + int (blockWidth (parseBlock (delimiter (dataModel s)) text)))
           \<and> map (\<lambda>(k, old, new). (k, new)) (valuePatch t)
               = pasteWrites (rowMap (current (store s'))) (columnMap (current (store s')))
                   (nat (min (r1 x) (r2 x))) (nat (min (c1 x) (c2 x)))
                   (parseBlock (delimiter (dataModel s)) text)
           \<and> joinWith [LF]
                 (map (joinWith (delimiter (dataModel s)))
                    (parseBlock (delimiter (dataModel s)) text)) = text"
proof -
  define e where "e = dataModel s"
  define row where "row = min (r1 x) (r2 x)"
  define col where "col = min (c1 x) (c2 x)"
  define block where "block = parseBlock (delimiter e) text"
  define rows where "rows = rowMap (current (store s))"
  define cols where "cols = columnMap (current (store s))"
  define mr where "mr = max 0 (row + int (length block) - int (length rows))"
  define mc where "mc = max 0 (col + int (blockWidth block) - int (length cols))"
  define rk where "rk = [nextKey e..nextKey e + mr - 1]"
  define ck where "ck = [nextKey e + mr..nextKey e + mr + mc - 1]"
  define writes where "writes = pasteWrites (rows @ rk) (cols @ ck) (nat row) (nat col) block"
  define gs where
    "gs = \<lparr>currentRows = int (length rows) + mr, currentColumns = int (length cols) + mc,
           nextChange = CellsChanged Body row col (int (length block)) (int (blockWidth block)),
           nextCommand = None\<rparr>"
  define e' where
    "e' = emitChange (CellsChanged Body row col (int (length block)) (int (blockWidth block)))
            (e\<lparr>nextKey := nextKey e + mr + mc\<rparr>)"
  have ne: "block \<noteq> []" by (simp add: block_def parseBlock_nonempty)
  have pos: "0 \<le> row" "0 \<le> col" using assms(2,3) by (simp_all add: row_def col_def)
  have mr0: "0 \<le> mr" and mc0: "0 \<le> mc" by (simp_all add: mr_def mc_def)
  from growSplice [OF mr0, of rows "nextKey e"] obtain rp where
    rp: "applySplice
           (case (if 0 < mr then Some \<lparr>index = int (length rows), remove = 0, vals = rk\<rparr>
                  else None) of
              None \<Rightarrow> NULL_NUM_SPLICE | Some sp \<Rightarrow> sp) rows = Inr (rows @ rk, rp)"
    and rpi: "inserted rp = rk" "removed rp = []"
    unfolding rk_def by blast
  from growSplice [OF mc0, of cols "nextKey e + mr"] obtain cp where
    cp: "applySplice
           (case (if 0 < mc then Some \<lparr>index = int (length cols), remove = 0, vals = ck\<rparr>
                  else None) of
              None \<Rightarrow> NULL_NUM_SPLICE | Some sp \<Rightarrow> sp) cols = Inr (cols @ ck, cp)"
    and cpi: "inserted cp = ck" "removed cp = []"
    unfolding ck_def by blast
  obtain vm vp where v: "applyValueUpdate writes (valueMap (current (store s))) = (vm, vp)"
    by (cases "applyValueUpdate writes (valueMap (current (store s)))")
  from applyValueUpdate_writes [OF v] have vw: "map (\<lambda>(k, old, new). (k, new)) vp = writes" .
  define t where
    "t = \<lparr>rowPatch = rp, columnPatch = cp, valuePatch = vp,
          selectionPatch = (selection (current (store s)), currentSelection s),
          gridStatePatch = (gridState (current (store s)), Some gs)\<rparr>"
  define s' where
    "s' = recomputeMetadata engineModel
            (s\<lparr>dataModel := e',
               store := \<lparr>current = \<lparr>rowMap = rows @ rk, columnMap = cols @ ck, valueMap = vm,
                                      selection = currentSelection s, gridState = Some gs\<rparr>,
                         undoStack = t # undoStack (store s), redoStack = []\<rparr>,
               dirty := True\<rparr>)"
  have p: "enginePaste Body (Some row) (Some col) (Some text) (store s) e
           = (Some (noUpdate
                \<lparr>rowUpdate :=
                   (if 0 < mr then Some \<lparr>index = int (length rows), remove = 0, vals = rk\<rparr>
                    else None),
                 columnUpdate :=
                   (if 0 < mc then Some \<lparr>index = int (length cols), remove = 0, vals = ck\<rparr>
                    else None),
                 valueUpdate := Some writes,
                 gridStateUpdate := Some gs\<rparr>), e')"
    using ne pos
    by (simp add: enginePaste_def Let_def block_def [symmetric] rows_def [symmetric]
        cols_def [symmetric] mr_def [symmetric] mc_def [symmetric] rk_def [symmetric]
        ck_def [symmetric] writes_def [symmetric] gs_def e'_def)
  have h: "handlePaste engineModel text s = Inr s'"
    using assms(1) p rp cp v
    by (simp add: handlePaste_def Let_def engineModel_def e_def [symmetric] row_def [symmetric]
        col_def [symmetric] updateModel_def commit_def noUpdate_def currentSelection_def
        rows_def [symmetric] cols_def [symmetric] s'_def t_def recomputeMetadata_def)
  have st: "store s' = \<lparr>current = \<lparr>rowMap = rows @ rk, columnMap = cols @ ck, valueMap = vm,
                                      selection = currentSelection s, gridState = Some gs\<rparr>,
                         undoStack = t # undoStack (store s), redoStack = []\<rparr>"
    by (simp add: s'_def)
  have lr: "int (length (rows @ rk)) = max (int (length rows)) (row + int (length block))"
    by (simp add: rk_def mr_def)
  have lc: "int (length (cols @ ck)) = max (int (length cols)) (col + int (blockWidth block))"
    by (simp add: ck_def mc_def)
  have j: "joinWith [LF] (map (joinWith (delimiter e)) block) = text"
    by (simp add: block_def parseBlock_joined)
  show ?thesis
    apply (rule exI [of _ s'], rule exI [of _ t])
    using h st rpi cpi lr lc vw j
    apply (simp add: t_def rows_def cols_def row_def col_def block_def e_def writes_def)
    done
qed

text \<open>
  Pasting \<open>"1,2\n3,4"\<close> at the bottom-right cell of the 3 by 3 grid: one row (key 3) and
  one column (key 4) are added, in the same transaction as the four writes.
\<close>

lemma paste_event_commits_block_example:
  "getSelectedRange (exampleAfter [Select [cornerCell]]) = Some cornerCell
   \<and> 0 \<le> min (r1 cornerCell) (r2 cornerCell) \<and> 0 \<le> min (c1 cornerCell) (c2 cornerCell)
   \<and> (\<exists>s' t. handlePaste engineModel pastedText (exampleAfter [Select [cornerCell]]) = Inr s'
         \<and> undoStack (store s') = t # undoStack (store (exampleAfter [Select [cornerCell]]))
         \<and> removed (rowPatch t) = [] \<and> removed (columnPatch t) = [])
   \<and> map_sum id (\<lambda>s. (rowMap (current (store s)), columnMap (current (store s)),
                     length (undoStack (store s)),
                     map (\<lambda>(k, old, new). (k, new)) (valuePatch (hd (undoStack (store s))))))
        (handlePaste engineModel pastedText (exampleAfter [Select [cornerCell]]))
      = Inr ([0, 1, 2, 3], [0, 1, 2, 4], 2,
             [([50, 44, 50], Some [49]), ([50, 44, 52], Some [50]),
              ([51, 44, 50], Some [51]), ([51, 44, 52], Some [52])])"
proof -
  from paste_event_commits_block [OF corner_facts, of pastedText]
  have "\<exists>s' t. handlePaste engineModel pastedText (exampleAfter [Select [cornerCell]]) = Inr s'
         \<and> undoStack (store s') = t # undoStack (store (exampleAfter [Select [cornerCell]]))
         \<and> removed (rowPatch t) = [] \<and> removed (columnPatch t) = []"
    by blast
  with corner_facts corner_pasted show ?thesis by blast
qed

section \<open>The row delimiter guesser\<close>

text \<open>
  Claim C9. For every input string the row delimiter guesser returns one of \<open>"\n"\<close>,
  \<open>"\r\n"\<close> and \<open>"\r"\<close>: it returns \<open>"\n"\<close> when no carriage return occurs in the first
  5000 code units; when the first carriage return of the string stands at a position
  \<open>i\<close> below 5000, it returns \<open>"\r\n"\<close> if the code unit after it is a line feed and
  \<open>"\r"\<close> otherwise.
\<close>

theorem guessRowDelimeter_cases:
  "guessRowDelimeter data \<in> {[LF], [CR, LF], [CR]}
   \<and> (CR \<notin> set (take 5000 data) \<longrightarrow> guessRowDelimeter data = [LF])
   \<and> (\<forall>i. i < 5000 \<and> i < length data \<and> data ! i = CR \<and> (\<forall>j<i. data ! j \<noteq> CR) \<longrightarrow>
          guessRowDelimeter data =
            (if Suc i < length data \<and> data ! Suc i = LF then [CR, LF] else [CR]))"
proof (intro conjI allI impI)
  show "guessRowDelimeter data \<in> {[LF], [CR, LF], [CR]}"
    by (simp add: guessRowDelimeter_def split: option.split)
next
  assume "CR \<notin> set (take 5000 data)"
  then have "indexOf (take 5000 data) CR = None"
    by (simp add: indexOf_None_iff)
  then show "guessRowDelimeter data = [LF]"
    by (simp add: guessRowDelimeter_def)
next
  fix i
  assume h: "i < 5000 \<and> i < length data \<and> data ! i = CR \<and> (\<forall>j<i. data ! j \<noteq> CR)"
  then have "indexOf (take 5000 data) CR = Some i"
    by (simp add: indexOf_Some_iff)
  then show "guessRowDelimeter data =
      (if Suc i < length data \<and> data ! Suc i = LF then [CR, LF] else [CR])"
    by (simp add: guessRowDelimeter_def charAt_def)
qed

text \<open>The text \<open>"a\r\nb"\<close>: its first carriage return, at position 1, is followed by a line feed.\<close>

theorem guessRowDelimeter_cases_witness:
  "(1::nat) < 5000 \<and> 1 < length [97, CR, LF, 98] \<and> [97, CR, LF, 98] ! 1 = CR
   \<and> [97, CR, LF, 98] ! 0 \<noteq> CR
   \<and> guessRowDelimeter [97, CR, LF, 98] = [CR, LF]"
  using guessRowDelimeter_cases [of "[97, CR, LF, 98]", THEN conjunct2, THEN conjunct2, THEN spec, of 1]
  by (simp add: CR_def LF_def)

section \<open>The dirty flag\<close>

text \<open>
  Claim C10. An update that \<open>updateModel\<close> commits marks the editor dirty unless its type
  is \<open>'init'\<close>; the initial update of \<open>_updateGrid\<close> leaves it clean; \<open>save\<close> resets the
  flag. So after any inputs to a loaded document the editor is dirty exactly when an
  input has handed a non-init update to \<open>updateModel\<close> since the last save.
\<close>

theorem dirty_iff_unsaved_commit:
  assumes "updateGrid dm m data = Inr s0" and "run dm is s0 = Inr s"
  shows "dirty s = unsavedAfter dm is s0 False"
  using run_dirty [OF assms(2)] updateGrid_clean [OF assms(1)] by simp

text \<open>
  The loaded example after an edit, a save, an undo and another edit: it is dirty.
\<close>

theorem dirty_iff_unsaved_commit_witness:
  "updateGrid engineModel (newEngine exampleParse [44]) [] = Inr loadedExample
   \<and> run engineModel savedInputs loadedExample = Inr (exampleAfter savedInputs)
   \<and> dirty (exampleAfter savedInputs) = unsavedAfter engineModel savedInputs loadedExample False
   \<and> dirty (exampleAfter savedInputs)"
  using dirty_iff_unsaved_commit [OF loadedExample_loaded exampleAfter_run [OF saved_ok]]
    loadedExample_loaded exampleAfter_run [OF saved_ok] saved_dirty
  by blast

end
